theory Spec2Isabelle
  imports Complex_Main
begin

section \<open>Python values and exceptions\<close>

text \<open>
  The library passes plain Python values to the cloud SDK. A finite float is \<open>FFin m e\<close>,
  the binary fraction \<open>m * 2 ^ e\<close>; a finite \<^verbatim>\<open>Decimal\<close> is \<open>DFin c x\<close>, the decimal
  fraction \<open>c * 10 ^ x\<close> with its coefficient and exponent as Python keeps them. The sign
  of a zero is not kept, since nothing in the library reads it. \<open>FInf True\<close> and
  \<open>DInf True\<close> are the negative infinities, \<open>DNaN True\<close> is the signalling NaN. A \<^verbatim>\<open>str\<close>
  is a list of characters with code points below 256, a \<^verbatim>\<open>dict\<close> with string keys is an
  association list in insertion order.
\<close>

datatype pyfloat = FFin int int | FInf bool | FNaN

datatype decimal = DFin int int | DInf bool | DNaN bool

datatype pyval =
    PNone
  | PBool bool
  | PInt int
  | PFloat pyfloat
  | PDecimal decimal
  | PStr string
  | PList "pyval list"
  | PDict "(string \<times> pyval) list"

type_synonym item = "(string \<times> pyval) list"

text \<open>
  Exceptions are values: the class and the message (\<^verbatim>\<open>str(e)\<close>). Every class here derives
  from \<^verbatim>\<open>Exception\<close>; \<open>OtherError\<close> stands for any further subclass of \<^verbatim>\<open>Exception\<close> that
  is none of the named ones (botocore's \<^verbatim>\<open>BotoCoreError\<close> family, for instance, which does not
  derive from \<^verbatim>\<open>ClientError\<close>). The messages of errors raised by the interpreter itself are
  abbreviated.
\<close>

datatype exc_class =
    ValueError | TypeError | OverflowError | MemoryError | RecursionError | InvalidOperation
  | ClientError | RuntimeError | OtherError

datatype py_exc = Exc (exc_cls: exc_class) (exc_msg: string)

section \<open>The builtins the library calls\<close>

text \<open>Truncation toward zero of \<open>n * b ^ k\<close>, for a base \<open>b\<close> and any exponent \<open>k\<close>.\<close>

definition trunc :: "int \<Rightarrow> int \<Rightarrow> int \<Rightarrow> int" where
  "trunc b n k = (if 0 \<le> k then n * b ^ nat k else sgn n * (\<bar>n\<bar> div b ^ nat (- k)))"

definition is_digit :: "char \<Rightarrow> bool" where
  "is_digit c = (48 \<le> (of_char c :: nat) \<and> (of_char c :: nat) \<le> 57)"

definition digit_val :: "char \<Rightarrow> int" where
  "digit_val c = int (of_char c) - 48"

text \<open>
  The characters \<^verbatim>\<open>str.strip()\<close> removes, and the (fewer) ones \<^verbatim>\<open>int()\<close> skips around a
  literal: \<^verbatim>\<open>int()\<close> does not accept the separators \<^verbatim>\<open>\x1c\<close> to \<^verbatim>\<open>\x1f\<close>.
\<close>

definition str_space :: "char \<Rightarrow> bool" where
  "str_space c = ((of_char c :: nat) \<in> set [9, 10, 11, 12, 13, 28, 29, 30, 31, 32, 133, 160])"

definition int_space :: "char \<Rightarrow> bool" where
  "int_space c = ((of_char c :: nat) \<in> set [9, 10, 11, 12, 13, 32, 133, 160])"

definition strip :: "string \<Rightarrow> string" where
  "strip s = rev (dropWhile str_space (rev (dropWhile str_space s)))"

text \<open>Decimal digits, with single underscores allowed between two digits.\<close>

fun parse_digits :: "int \<Rightarrow> string \<Rightarrow> int option" where
  "parse_digits acc [] = Some acc"
| "parse_digits acc [c] = (if is_digit c then Some (10 * acc + digit_val c) else None)"
| "parse_digits acc (c # d # cs) =
     (if is_digit c then parse_digits (10 * acc + digit_val c) (d # cs)
      else if c = CHR ''_'' \<and> is_digit d then parse_digits (10 * acc + digit_val d) cs
      else None)"

text \<open>\<open>bit_length\<close> is \<^verbatim>\<open>int.bit_length\<close>, \<open>digit_length\<close> the number of decimal digits.\<close>

function bit_length :: "int \<Rightarrow> int" where
  "bit_length n = (if n \<le> 0 then 0 else 1 + bit_length (n div 2))"
  by pat_completeness auto
termination by (relation "measure nat") auto

function digit_length :: "int \<Rightarrow> int" where
  "digit_length n = (if n \<le> 0 then 0 else 1 + digit_length (n div 10))"
  by pat_completeness auto
termination by (relation "measure nat") auto

declare bit_length.simps [simp del] digit_length.simps [simp del]

text \<open>
  The limits of the interpreter that the builtins below run into: the largest number of
  digits \<^verbatim>\<open>int\<close> and \<^verbatim>\<open>str\<close> convert between (\<^verbatim>\<open>sys.int_max_str_digits\<close>, 4300 by default,
  0 for no limit), the number of digits of the largest integer the memory holds, and the
  number of nested lists and dictionaries the JSON encoder can enter before the recursion
  limit is reached.
\<close>

record limits =
  int_max_str_digits :: int
  memory_digits :: int
  recursion_depth :: nat

definition too_many_digits :: "limits \<Rightarrow> int \<Rightarrow> bool" where
  "too_many_digits lims n = (0 < int_max_str_digits lims \<and> int_max_str_digits lims < n)"

definition int_of_str :: "limits \<Rightarrow> string \<Rightarrow> py_exc + int" where
  "int_of_str lims s =
     (let t = rev (dropWhile int_space (rev (dropWhile int_space s)));
          neg = (case t of [] \<Rightarrow> False | c # _ \<Rightarrow> c = CHR ''-'');
          r = (case t of [] \<Rightarrow> [] | c # cs \<Rightarrow> if c = CHR ''-'' \<or> c = CHR ''+'' then cs else t)
      in case r of
           [] \<Rightarrow> Inl (Exc ValueError ''invalid literal for int()'')
         | c # cs \<Rightarrow>
             if is_digit c then
               (case parse_digits (digit_val c) cs of
                  None \<Rightarrow> Inl (Exc ValueError ''invalid literal for int()'')
                | Some n \<Rightarrow>
                    if too_many_digits lims (int (length (filter is_digit r)))
                    then Inl (Exc ValueError ''Exceeds the limit for integer string conversion'')
                    else Inr (if neg then - n else n))
             else Inl (Exc ValueError ''invalid literal for int()''))"

text \<open>
  \<^verbatim>\<open>int(x)\<close>: truncation toward zero for a float or a \<^verbatim>\<open>Decimal\<close>, \<^verbatim>\<open>ValueError\<close> for a
  NaN, \<^verbatim>\<open>OverflowError\<close> for an infinity, \<^verbatim>\<open>TypeError\<close> for \<^verbatim>\<open>None\<close>, a list or a dict,
  \<^verbatim>\<open>ValueError\<close> for a string that is no literal or has too many digits. For a \<^verbatim>\<open>Decimal\<close>
  that is not zero and has a non-negative exponent \<open>x\<close> the integer \<open>c * 10 ^ x\<close> is built,
  which the memory must hold (\<^verbatim>\<open>MemoryError\<close> otherwise).
\<close>

fun py_int :: "limits \<Rightarrow> pyval \<Rightarrow> py_exc + int" where
  "py_int lims PNone = Inl (Exc TypeError ''int() argument must be a string or a number'')"
| "py_int lims (PBool b) = Inr (if b then 1 else 0)"
| "py_int lims (PInt i) = Inr i"
| "py_int lims (PFloat (FFin m e)) = Inr (trunc 2 m e)"
| "py_int lims (PFloat (FInf _)) =
     Inl (Exc OverflowError ''cannot convert float infinity to integer'')"
| "py_int lims (PFloat FNaN) = Inl (Exc ValueError ''cannot convert float NaN to integer'')"
| "py_int lims (PDecimal (DFin c x)) =
     (if c \<noteq> 0 \<and> 0 \<le> x \<and> memory_digits lims < x + digit_length \<bar>c\<bar>
      then Inl (Exc MemoryError [])
      else Inr (trunc 10 c x))"
| "py_int lims (PDecimal (DInf _)) = Inl (Exc OverflowError ''cannot convert Infinity to integer'')"
| "py_int lims (PDecimal (DNaN _)) = Inl (Exc ValueError ''cannot convert NaN to integer'')"
| "py_int lims (PStr s) = int_of_str lims s"
| "py_int lims (PList _) = Inl (Exc TypeError ''int() argument must be a string or a number'')"
| "py_int lims (PDict _) = Inl (Exc TypeError ''int() argument must be a string or a number'')"

text \<open>
  \<^verbatim>\<open>json.dumps\<close> walks the value depth first and raises the first error it meets:
  \<^verbatim>\<open>TypeError\<close> on a \<^verbatim>\<open>Decimal\<close>, \<^verbatim>\<open>ValueError\<close> on an integer with too many digits to
  write, \<^verbatim>\<open>RecursionError\<close> on entering a list or dictionary nested too deep; \<open>json_error\<close>
  is that error, at nesting depth \<open>d\<close>. The text produced is not needed: the serialised
  payload is kept as the value it denotes.
\<close>

fun json_error :: "limits \<Rightarrow> nat \<Rightarrow> pyval \<Rightarrow> py_exc option"
  and json_error_list :: "limits \<Rightarrow> nat \<Rightarrow> pyval list \<Rightarrow> py_exc option"
  and json_error_items :: "limits \<Rightarrow> nat \<Rightarrow> item \<Rightarrow> py_exc option" where
  "json_error lims d (PDecimal _) =
     Some (Exc TypeError ''Object of type Decimal is not JSON serializable'')"
| "json_error lims d (PInt i) =
     (if too_many_digits lims (digit_length \<bar>i\<bar>)
      then Some (Exc ValueError ''Exceeds the limit for integer string conversion'')
      else None)"
| "json_error lims d (PList vs) =
     (if recursion_depth lims \<le> d
      then Some (Exc RecursionError ''maximum recursion depth exceeded while encoding a JSON object'')
      else json_error_list lims (Suc d) vs)"
| "json_error lims d (PDict kvs) =
     (if recursion_depth lims \<le> d
      then Some (Exc RecursionError ''maximum recursion depth exceeded while encoding a JSON object'')
      else json_error_items lims (Suc d) kvs)"
| "json_error lims d PNone = None"
| "json_error lims d (PBool _) = None"
| "json_error lims d (PFloat _) = None"
| "json_error lims d (PStr _) = None"
| "json_error_list lims d [] = None"
| "json_error_list lims d (v # vs) =
     (case json_error lims d v of Some e \<Rightarrow> Some e | None \<Rightarrow> json_error_list lims d vs)"
| "json_error_items lims d [] = None"
| "json_error_items lims d ((k, v) # kvs) =
     (case json_error lims d v of Some e \<Rightarrow> Some e | None \<Rightarrow> json_error_items lims d kvs)"

definition json_dumps :: "limits \<Rightarrow> pyval \<Rightarrow> py_exc + pyval" where
  "json_dumps lims v = (case json_error lims 0 v of Some e \<Rightarrow> Inl e | None \<Rightarrow> Inr v)"

text \<open>The limits of a default interpreter with ample memory, for the examples.\<close>

definition default_limits :: limits where
  "default_limits = \<lparr>int_max_str_digits = 4300, memory_digits = 1000000, recursion_depth = 900\<rparr>"

section \<open>utility.py\<close>

text \<open>
  \<^verbatim>\<open>InventoryUtility.below_threshold\<close>: the two coercions run left to right inside the
  \<^verbatim>\<open>try\<close>; the handler catches \<^verbatim>\<open>TypeError\<close> and \<^verbatim>\<open>ValueError\<close> only.
\<close>

definition below_threshold :: "limits \<Rightarrow> pyval \<Rightarrow> pyval \<Rightarrow> py_exc + bool" where
  "below_threshold lims quantity threshold =
     (case (case py_int lims quantity of
              Inl e \<Rightarrow> Inl e
            | Inr a \<Rightarrow>
                (case py_int lims threshold of Inl e \<Rightarrow> Inl e | Inr b \<Rightarrow> Inr (a \<le> b))) of
        Inr r \<Rightarrow> Inr r
      | Inl e \<Rightarrow>
          if exc_cls e = TypeError \<or> exc_cls e = ValueError then Inr False else Inl e)"

section \<open>aws\_lambda.py\<close>

record invoke_request =
  FunctionName :: string
  InvocationType :: string
  Payload :: pyval

text \<open>
  \<^verbatim>\<open>LambdaInvoker.invoke_function\<close>. The SDK client's \<^verbatim>\<open>invoke\<close> is a parameter acting on the
  state \<open>'w\<close> of the remote service. Both the serialisation of the payload and the call are
  inside the \<^verbatim>\<open>try\<close>, whose handler catches \<^verbatim>\<open>ClientError\<close> only. The result carries the
  lines printed.
\<close>

definition invoke_function ::
  "limits \<Rightarrow> (invoke_request \<Rightarrow> 'w \<Rightarrow> (py_exc + pyval) \<times> 'w) \<Rightarrow> string \<Rightarrow> pyval \<Rightarrow> string
     \<Rightarrow> 'w \<Rightarrow> ((py_exc + pyval) \<times> string list) \<times> 'w" where
  "invoke_function lims invoke function_name payload invocation_type w =
     (case (case json_dumps lims payload of
              Inl e \<Rightarrow> (Inl e, w)
            | Inr body \<Rightarrow>
                invoke \<lparr>FunctionName = function_name, InvocationType = invocation_type,
                        Payload = body\<rparr> w) of
        (Inr response, w') \<Rightarrow> ((Inr response, ['' Invoked Lambda: '' @ function_name]), w')
      | (Inl e, w') \<Rightarrow>
          if exc_cls e = ClientError
          then ((Inr PNone, ['' Lambda invocation failed: '' @ exc_msg e]), w')
          else ((Inl e, []), w'))"

section \<open>aws\_dynamodb.py: single-item operations\<close>

record get_response =
  Item :: "item option"

text \<open>
  \<^verbatim>\<open>DynamoDBManager.get_item\<close>. The table's \<^verbatim>\<open>get_item\<close> is a parameter; \<open>tname\<close> is
  \<^verbatim>\<open>self.table.name\<close>. The handler catches \<^verbatim>\<open>Exception\<close>, that is every \<open>py_exc\<close>.
\<close>

definition get_item ::
  "string \<Rightarrow> (item \<Rightarrow> py_exc + get_response) \<Rightarrow> item \<Rightarrow> (py_exc + pyval) \<times> string list" where
  "get_item tname table_get_item key =
     (case table_get_item key of
        Inr response \<Rightarrow> (Inr (case Item response of None \<Rightarrow> PNone | Some i \<Rightarrow> PDict i), [])
      | Inl e \<Rightarrow> (Inr PNone, [''Get error in '' @ tname @ '': '' @ exc_msg e]))"

section \<open>aws\_s3.py\<close>

text \<open>
  The object store's SDK, as the operations on the state \<open>'w\<close> of the outside world that
  the constructor uses: creating the client, \<^verbatim>\<open>list_buckets\<close> (the names under
  \<^verbatim>\<open>Buckets\<close>, when the response has that key) and \<^verbatim>\<open>create_bucket\<close> (with the location
  constraint, when one is given).
\<close>

record 'w s3_api =
  new_client :: "string \<Rightarrow> 'w \<Rightarrow> 'w"
  list_buckets :: "'w \<Rightarrow> (py_exc + string list option) \<times> 'w"
  create_bucket :: "string \<Rightarrow> string option \<Rightarrow> 'w \<Rightarrow> (py_exc + unit) \<times> 'w"

record s3_manager =
  bucket_name :: string
  region_name :: string

text \<open>
  \<^verbatim>\<open>S3Manager._ensure_bucket_exists\<close>: a \<^verbatim>\<open>ClientError\<close> is printed and raised again, any
  other error propagates as it is.
\<close>

definition ensure_bucket_exists ::
  "'w s3_api \<Rightarrow> s3_manager \<Rightarrow> 'w \<Rightarrow> ((py_exc + unit) \<times> string list) \<times> 'w" where
  "ensure_bucket_exists api self w =
     (let reraise = (\<lambda>e out. (Inl e,
            out @ (if exc_cls e = ClientError
                   then [''Error ensuring bucket existence: '' @ exc_msg e] else [])))
      in case list_buckets api w of
           (Inl e, w1) \<Rightarrow> (reraise e [], w1)
         | (Inr response, w1) \<Rightarrow>
             let existing_buckets = (case response of None \<Rightarrow> [] | Some names \<Rightarrow> names) in
             if bucket_name self \<notin> set existing_buckets then
               let out1 = [''Bucket '' @ [CHR 0x27] @ bucket_name self @ [CHR 0x27]
                             @ '' not found. Creating it...''] in
               (case create_bucket api (bucket_name self)
                       (if region_name self = ''us-east-1'' then None
                        else Some (region_name self)) w1 of
                  (Inl e, w2) \<Rightarrow> (reraise e out1, w2)
                | (Inr _, w2) \<Rightarrow>
                    ((Inr (), out1 @ [''Bucket '' @ [CHR 0x27] @ bucket_name self @ [CHR 0x27]
                                        @ '' created successfully.'']), w2))
             else ((Inr (), []), w1))"

text \<open>
  \<^verbatim>\<open>S3Manager.__init__\<close>. The bucket name is any Python value (the default is \<^verbatim>\<open>None\<close>); the
  region is a string or \<^verbatim>\<open>None\<close>, and \<^verbatim>\<open>region_name or "us-east-1"\<close> replaces \<^verbatim>\<open>None\<close> and
  the empty string.
\<close>

definition s3_init ::
  "'w s3_api \<Rightarrow> pyval \<Rightarrow> string option \<Rightarrow> 'w \<Rightarrow> ((py_exc + s3_manager) \<times> string list) \<times> 'w" where
  "s3_init api bucket region w =
     (case bucket of
        PStr name \<Rightarrow>
          if strip name = [] then
            ((Inl (Exc ValueError
                ''S3Manager: A valid S3 bucket name (string) must be provided.''), []), w)
          else
            let self = \<lparr>bucket_name = strip name,
                        region_name = (case region of
                                         None \<Rightarrow> ''us-east-1''
                                       | Some r \<Rightarrow> if r = [] then ''us-east-1'' else r)\<rparr>;
                w1 = new_client api (region_name self) w
            in (case ensure_bucket_exists api self w1 of
                  ((Inl e, out), w2) \<Rightarrow> ((Inl e, out), w2)
                | ((Inr _, out), w2) \<Rightarrow> ((Inr self, out), w2))
      | _ \<Rightarrow>
          ((Inl (Exc ValueError
              ''S3Manager: A valid S3 bucket name (string) must be provided.''), []), w))"

text \<open>An instrumented world for examples: the list of the calls made, latest first.\<close>

datatype s3_call = New_client string | List_buckets | Create_bucket string "string option"

definition recording_s3 :: "string list \<Rightarrow> (s3_call list) s3_api" where
  "recording_s3 names =
     \<lparr>new_client = (\<lambda>r w. New_client r # w),
      list_buckets = (\<lambda>w. (Inr (Some names), List_buckets # w)),
      create_bucket = (\<lambda>b loc w. (Inr (), Create_bucket b loc # w))\<rparr>"

section \<open>aws\_sns.py\<close>

text \<open>
  A subscription as the service lists it (a dictionary read with \<^verbatim>\<open>get\<close>, so each key may
  be missing), the keyword arguments of the two requests the adapter sends, and the SDK
  client as operations on the state \<open>'w\<close> of the service. Each operation returns the
  field of the response the adapter reads.
\<close>

record subscription =
  SubscriptionArn :: "string option"
  Endpoint :: "string option"
  Protocol :: "string option"

record subscribe_request =
  req_TopicArn :: string
  req_Protocol :: string
  req_Endpoint :: string
  req_Attributes :: item
  req_ReturnSubscriptionArn :: bool

record publish_request =
  pub_TopicArn :: string
  pub_Subject :: string
  pub_Message :: pyval
  pub_MessageAttributes :: "item option"

record 'w sns_client =
  sns_create_topic :: "string \<Rightarrow> 'w \<Rightarrow> (py_exc + string) \<times> 'w"
  sns_list_topics :: "'w \<Rightarrow> (py_exc + string list option) \<times> 'w"
  sns_subscribe :: "subscribe_request \<Rightarrow> 'w \<Rightarrow> (py_exc + string) \<times> 'w"
  sns_list_subscriptions_by_topic :: "string \<Rightarrow> 'w \<Rightarrow> (py_exc + subscription list option) \<times> 'w"
  sns_publish :: "publish_request \<Rightarrow> 'w \<Rightarrow> (py_exc + pyval) \<times> 'w"

text \<open>
  The adapter's own state is the topic handle, \<^verbatim>\<open>None\<close> by default. Every method returns
  its result, the adapter afterwards and the service afterwards.
\<close>

record sns_manager =
  topic_arn :: "string option"

text \<open>\<^verbatim>\<open>except ClientError as e: raise RuntimeError(f"...{e}")\<close>; other errors pass through.\<close>

definition as_runtime_error :: "string \<Rightarrow> py_exc \<Rightarrow> py_exc" where
  "as_runtime_error prefix e =
     (if exc_cls e = ClientError then Exc RuntimeError (prefix @ exc_msg e) else e)"

definition create_topic ::
  "'w sns_client \<Rightarrow> sns_manager \<Rightarrow> string \<Rightarrow> 'w \<Rightarrow> ((py_exc + string) \<times> sns_manager) \<times> 'w" where
  "create_topic client self topic_name w =
     (case sns_create_topic client topic_name w of
        (Inr arn, w') \<Rightarrow> ((Inr arn, self\<lparr>topic_arn := Some arn\<rparr>), w')
      | (Inl e, w') \<Rightarrow> ((Inl (as_runtime_error ''Error creating topic: '' e), self), w'))"

definition list_topics ::
  "'w sns_client \<Rightarrow> sns_manager \<Rightarrow> 'w \<Rightarrow> ((py_exc + string list) \<times> sns_manager) \<times> 'w" where
  "list_topics client self w =
     (case sns_list_topics client w of
        (Inr topics, w') \<Rightarrow> ((Inr (case topics of None \<Rightarrow> [] | Some ts \<Rightarrow> ts), self), w')
      | (Inl e, w') \<Rightarrow> ((Inl (as_runtime_error ''Error listing topics: '' e), self), w'))"

text \<open>
  \<^verbatim>\<open>subscribe\<close>: \<^verbatim>\<open>if not self.topic_arn\<close> holds for \<^verbatim>\<open>None\<close> and for the empty string. The
  filter policy is serialised before the \<^verbatim>\<open>try\<close>.
\<close>

definition subscribe ::
  "limits \<Rightarrow> 'w sns_client \<Rightarrow> sns_manager \<Rightarrow> string \<Rightarrow> string \<Rightarrow> item option \<Rightarrow> 'w
     \<Rightarrow> ((py_exc + string) \<times> sns_manager) \<times> 'w" where
  "subscribe lims client self protocol endpoint filter_policy w =
     (case topic_arn self of
        None \<Rightarrow> ((Inl (Exc ValueError
                   ''Topic ARN not set. Set or create a topic before subscribing.''), self), w)
      | Some arn \<Rightarrow>
          if arn = [] then
            ((Inl (Exc ValueError
                ''Topic ARN not set. Set or create a topic before subscribing.''), self), w)
          else
            (case (case filter_policy of
                     None \<Rightarrow> Inr []
                   | Some fp \<Rightarrow>
                       if fp = [] then Inr []
                       else (case json_dumps lims (PDict fp) of
                               Inl e \<Rightarrow> Inl e
                             | Inr text \<Rightarrow> Inr [(''FilterPolicy'', text)])) of
               Inl e \<Rightarrow> ((Inl e, self), w)
             | Inr attributes \<Rightarrow>
                 (case sns_subscribe client
                         \<lparr>req_TopicArn = arn, req_Protocol = protocol, req_Endpoint = endpoint,
                          req_Attributes = attributes, req_ReturnSubscriptionArn = True\<rparr> w of
                    (Inr sub_arn, w') \<Rightarrow> ((Inr sub_arn, self), w')
                  | (Inl e, w') \<Rightarrow>
                      ((Inl (as_runtime_error ''Error subscribing endpoint: '' e), self), w'))))"

definition list_subscriptions ::
  "'w sns_client \<Rightarrow> sns_manager \<Rightarrow> 'w \<Rightarrow> ((py_exc + subscription list) \<times> sns_manager) \<times> 'w" where
  "list_subscriptions client self w =
     (case topic_arn self of
        None \<Rightarrow> ((Inl (Exc ValueError ''Topic ARN not set.''), self), w)
      | Some arn \<Rightarrow>
          if arn = [] then ((Inl (Exc ValueError ''Topic ARN not set.''), self), w)
          else
            (case sns_list_subscriptions_by_topic client arn w of
               (Inr subs, w') \<Rightarrow> ((Inr (case subs of None \<Rightarrow> [] | Some ss \<Rightarrow> ss), self), w')
             | (Inl e, w') \<Rightarrow>
                 ((Inl (as_runtime_error ''Error listing subscriptions: '' e), self), w')))"

definition publish_message ::
  "'w sns_client \<Rightarrow> sns_manager \<Rightarrow> string \<Rightarrow> pyval \<Rightarrow> item option \<Rightarrow> 'w
     \<Rightarrow> ((py_exc + pyval) \<times> sns_manager) \<times> 'w" where
  "publish_message client self subject message message_attributes w =
     (case topic_arn self of
        None \<Rightarrow> ((Inl (Exc ValueError ''Topic ARN not set.''), self), w)
      | Some arn \<Rightarrow>
          if arn = [] then ((Inl (Exc ValueError ''Topic ARN not set.''), self), w)
          else
            (case sns_publish client
                    \<lparr>pub_TopicArn = arn, pub_Subject = subject, pub_Message = message,
                     pub_MessageAttributes =
                       (case message_attributes of
                          None \<Rightarrow> None
                        | Some attrs \<Rightarrow> if attrs = [] then None else Some attrs)\<rparr> w of
               (Inr response, w') \<Rightarrow> ((Inr response, self), w')
             | (Inl e, w') \<Rightarrow>
                 ((Inl (as_runtime_error ''Failed to send SNS message: '' e), self), w')))"

text \<open>
  \<^verbatim>\<open>send_low_stock_alert\<close>: the product name and the quantity are given by the text the
  f-string formats them to.
\<close>

definition send_low_stock_alert ::
  "'w sns_client \<Rightarrow> sns_manager \<Rightarrow> string \<Rightarrow> string \<Rightarrow> 'w
     \<Rightarrow> ((py_exc + pyval) \<times> sns_manager) \<times> 'w" where
  "send_low_stock_alert client self product_name quantity w =
     publish_message client self ''Low Stock Alert''
       (PStr (''Product '' @ [CHR 0x27] @ product_name @ [CHR 0x27]
                @ '' is below the reorder level ('' @ quantity @ '' left).''))
       None w"

text \<open>
  \<^verbatim>\<open>ensure_customer_subscription\<close>: the first listed subscription whose endpoint is the
  e-mail address decides; \<^verbatim>\<open>sub.get("SubscriptionArn")\<close> may be \<^verbatim>\<open>None\<close>.
\<close>

definition ensure_customer_subscription ::
  "limits \<Rightarrow> 'w sns_client \<Rightarrow> sns_manager \<Rightarrow> string \<Rightarrow> 'w
     \<Rightarrow> ((py_exc + string option) \<times> sns_manager) \<times> 'w" where
  "ensure_customer_subscription lims client self customer_email w =
     (case topic_arn self of
        None \<Rightarrow> ((Inl (Exc ValueError ''Topic ARN not set.''), self), w)
      | Some arn \<Rightarrow>
          if arn = [] then ((Inl (Exc ValueError ''Topic ARN not set.''), self), w)
          else
            (case list_subscriptions client self w of
               ((Inl e, self1), w1) \<Rightarrow> ((Inl e, self1), w1)
             | ((Inr existing, self1), w1) \<Rightarrow>
                 (case find (\<lambda>sub. Endpoint sub = Some customer_email) existing of
                    Some sub \<Rightarrow> ((Inr (SubscriptionArn sub), self1), w1)
                  | None \<Rightarrow>
                      (case subscribe lims client self1 ''email'' customer_email
                              (Some [(''customer_email'', PList [PStr customer_email])]) w1 of
                         ((Inl e, self2), w2) \<Rightarrow> ((Inl e, self2), w2)
                       | ((Inr sub_arn, self2), w2) \<Rightarrow> ((Inr (Some sub_arn), self2), w2)))))"

text \<open>
  An instrumented client for examples: it answers every listing with the given
  subscriptions and every subscribe request with the given handle, and records the calls
  made, latest first.
\<close>

datatype sns_call =
    Create_topic_call string
  | List_topics_call
  | Subscribe_call subscribe_request
  | List_subscriptions_call string
  | Publish_call publish_request

definition recording_sns :: "subscription list \<Rightarrow> string \<Rightarrow> (sns_call list) sns_client" where
  "recording_sns listed new_arn =
     \<lparr>sns_create_topic = (\<lambda>name w. (Inr (''arn:aws:sns:'' @ name), Create_topic_call name # w)),
      sns_list_topics = (\<lambda>w. (Inr (Some []), List_topics_call # w)),
      sns_subscribe = (\<lambda>req w. (Inr new_arn, Subscribe_call req # w)),
      sns_list_subscriptions_by_topic =
        (\<lambda>arn w. (Inr (Some listed), List_subscriptions_call arn # w)),
      sns_publish = (\<lambda>req w. (Inr PNone, Publish_call req # w))\<rparr>"

text \<open>
  A client that answers as the notification service does for an e-mail subscription
  awaiting confirmation: \<^verbatim>\<open>subscribe\<close>, asked to return the subscription ARN, answers with
  the ARN of the new subscription, while the listing reports that subscription under the
  handle \<^verbatim>\<open>PendingConfirmation\<close>. Its state is the list of subscriptions as listed.
\<close>

definition pending_sns :: "(subscription list) sns_client" where
  "pending_sns =
     \<lparr>sns_create_topic = (\<lambda>name w. (Inr (''arn:aws:sns:'' @ name), w)),
      sns_list_topics = (\<lambda>w. (Inr (Some []), w)),
      sns_subscribe = (\<lambda>req w.
         (Inr (req_TopicArn req @ '':1f0c''),
          w @ [\<lparr>SubscriptionArn = Some ''PendingConfirmation'',
                 Endpoint = Some (req_Endpoint req), Protocol = Some (req_Protocol req)\<rparr>])),
      sns_list_subscriptions_by_topic = (\<lambda>arn w. (Inr (Some w), w)),
      sns_publish = (\<lambda>req w. (Inr PNone, w))\<rparr>"

section \<open>Floats and decimals\<close>

text \<open>
  Arithmetic on positive fractions \<open>(n, d)\<close>, standing for \<open>n / d\<close>, done on integers:
  \<open>scale b f k\<close> is \<open>f / b ^ k\<close>; \<open>ilog2\<close> and \<open>ilog10\<close> are the floors of the logarithms.
\<close>

definition scale :: "int \<Rightarrow> int \<times> int \<Rightarrow> int \<Rightarrow> int \<times> int" where
  "scale b f k = (if 0 \<le> k then (fst f, snd f * b ^ nat k) else (fst f * b ^ nat (- k), snd f))"

definition ilog2 :: "int \<times> int \<Rightarrow> int" where
  "ilog2 f = (let k = bit_length (fst f) - bit_length (snd f); g = scale 2 f k
              in if snd g \<le> fst g then k else k - 1)"

definition ilog10 :: "int \<times> int \<Rightarrow> int" where
  "ilog10 f = (let k = digit_length (fst f) - digit_length (snd f); g = scale 10 f k
               in if snd g \<le> fst g then k else k - 1)"

definition round_half_even :: "int \<times> int \<Rightarrow> int" where
  "round_half_even f =
     (let q = fst f div snd f; r = fst f mod snd f
      in if 2 * r < snd f then q else if snd f < 2 * r then q + 1
         else if even q then q else q + 1)"

text \<open>The unique way to write a float: an odd mantissa, or \<open>(0, 0)\<close> for zero.\<close>

function normal :: "int \<Rightarrow> int \<Rightarrow> int \<times> int" where
  "normal m e = (if m = 0 then (0, 0) else if even m then normal (m div 2) (e + 1) else (m, e))"
  by pat_completeness auto
termination by (relation "measure (\<lambda>(m, e). nat \<bar>m\<bar>)") auto

function strip_zeros :: "int \<Rightarrow> int \<Rightarrow> int \<times> int" where
  "strip_zeros c x =
     (if c = 0 then (0, x) else if c mod 10 = 0 then strip_zeros (c div 10) (x + 1) else (c, x))"
  by pat_completeness auto
termination by (relation "measure (\<lambda>(c, x). nat \<bar>c\<bar>)") auto

declare normal.simps [simp del] strip_zeros.simps [simp del]

text \<open>
  The IEEE 754 double nearest to a positive fraction, ties to the even mantissa: 53 bits of
  mantissa, exponents from \<open>-1074\<close> (subnormal numbers included), infinity from \<open>2 ^ 1024\<close>
  on. This is what \<^verbatim>\<open>float(s)\<close> computes for a decimal literal \<^verbatim>\<open>s\<close>.
\<close>

definition round_double :: "int \<times> int \<Rightarrow> pyfloat" where
  "round_double f =
     (let e = max (ilog2 f - 52) (- 1074); m = round_half_even (scale 2 f e)
      in if 1024 < bit_length m + e then FInf False
         else (case normal m e of (m', e') \<Rightarrow> FFin m' e'))"

definition dec_fraction :: "int \<Rightarrow> int \<Rightarrow> int \<times> int" where
  "dec_fraction c x = scale 10 (c, 1) (- x)"

definition float_fraction :: "int \<Rightarrow> int \<Rightarrow> int \<times> int" where
  "float_fraction m e = scale 2 (m, 1) (- e)"

text \<open>
  \<^verbatim>\<open>repr\<close> of a positive finite float \<open>m * 2 ^ e\<close> writes the shortest string of digits that
  \<^verbatim>\<open>float\<close> reads back as the same float, and among those of that length the one nearest
  to the float. For \<open>k\<close> digits the only candidates are the two \<open>k\<close>-digit decimals around
  the float (the nearer one first); seventeen digits always suffice for a double, and
  should the search fail the exact decimal expansion is taken.
\<close>

definition candidates :: "int \<times> int \<Rightarrow> int \<Rightarrow> int \<Rightarrow> (int \<times> int) list" where
  "candidates f E k =
     (let x = E - k + 1; g = scale 10 f x; lo = fst g div snd g; r = fst g mod snd g
      in if r = 0 then [(lo, x)]
         else if 2 * r < snd g then [(lo, x), (lo + 1, x)]
         else if snd g < 2 * r then [(lo + 1, x), (lo, x)]
         else if even lo then [(lo, x), (lo + 1, x)] else [(lo + 1, x), (lo, x)])"

fun first_round_trip :: "pyfloat \<Rightarrow> (int \<times> int) list \<Rightarrow> (int \<times> int) option" where
  "first_round_trip v [] = None"
| "first_round_trip v ((c, x) # cs) =
     (case strip_zeros c x of
        (c', x') \<Rightarrow>
          if round_double (dec_fraction c' x') = v then Some (c', x')
          else first_round_trip v cs)"

fun search_digits ::
  "int \<times> int \<Rightarrow> int \<Rightarrow> pyfloat \<Rightarrow> int list \<Rightarrow> (int \<times> int) option" where
  "search_digits f E v [] = None"
| "search_digits f E v (k # ks) =
     (case first_round_trip v (candidates f E k) of
        Some cx \<Rightarrow> Some cx
      | None \<Rightarrow> search_digits f E v ks)"

definition exact_digits :: "int \<Rightarrow> int \<Rightarrow> int \<times> int" where
  "exact_digits m e = (if 0 \<le> e then (m * 2 ^ nat e, 0) else (m * 5 ^ nat (- e), e))"

definition shortest_digits :: "int \<Rightarrow> int \<Rightarrow> int \<times> int" where
  "shortest_digits m e =
     (case search_digits (float_fraction m e) (ilog10 (float_fraction m e)) (FFin m e)
             [1, 2, 3, 4, 5, 6, 7, 8, 9, 10, 11, 12, 13, 14, 15, 16, 17] of
        Some cx \<Rightarrow> cx
      | None \<Rightarrow> exact_digits m e)"

text \<open>
  A pair \<open>(m, e)\<close> with \<open>m\<close> positive is a double when reading its exact decimal expansion
  gives it back: rounding to the nearest double leaves exactly the doubles unchanged.
\<close>

definition is_double :: "int \<Rightarrow> int \<Rightarrow> bool" where
  "is_double m e =
     (0 < m \<and> (case exact_digits m e of (c, x) \<Rightarrow> round_double (dec_fraction c x) = FFin m e))"

text \<open>
  \<^verbatim>\<open>Decimal(str(v))\<close>. \<^verbatim>\<open>str\<close> writes the digits \<open>c\<close> with the exponent \<open>x\<close> of the last one
  in positional notation when the exponent \<open>E\<close> of the first digit is from \<open>-4\<close> to \<open>15\<close>,
  adding \<^verbatim>\<open>.0\<close> to a whole number, and in exponent notation otherwise; \<^verbatim>\<open>Decimal\<close> keeps
  the digits and the exponent as written.
\<close>

definition str_digits :: "int \<Rightarrow> int \<Rightarrow> int \<times> int" where
  "str_digits m e =
     (case shortest_digits m e of
        (c, x) \<Rightarrow>
          let E = digit_length c + x - 1
          in if - 4 \<le> E \<and> E < 16 \<and> 0 \<le> x then (c * 10 ^ nat (x + 1), - 1) else (c, x))"

definition decimal_of_float :: "pyfloat \<Rightarrow> decimal" where
  "decimal_of_float v =
     (case v of
        FFin m e \<Rightarrow>
          if m = 0 then DFin 0 (- 1)
          else (case str_digits \<bar>m\<bar> e of (c, x) \<Rightarrow> DFin (sgn m * c) x)
      | FInf s \<Rightarrow> DInf s
      | FNaN \<Rightarrow> DNaN False)"

text \<open>
  \<^verbatim>\<open>value % 1 == 0\<close> for a \<^verbatim>\<open>Decimal\<close>, in the default context (28 digits, exponents down
  to \<open>-999999\<close>). The remainder is refused (\<^verbatim>\<open>InvalidOperation\<close>, the signal
  \<^verbatim>\<open>DivisionImpossible\<close>) when the integer quotient has more than 28 digits, that is from
  \<open>10 ^ 28\<close> on, and for an infinity or a signalling NaN; a quiet NaN gives NaN, which is
  not equal to 0. Otherwise the remainder is the fractional part, rounded as the context
  rounds every result: digits below \<open>10 ^ - 1000026\<close> are rounded away, half to even, so
  that a fractional part of at most half that unit compares equal to 0 as well.
\<close>

definition zero_fraction :: "int \<Rightarrow> int \<Rightarrow> bool" where
  "zero_fraction c x =
     (0 \<le> x \<or> \<bar>c\<bar> mod 10 ^ nat (- x) = 0 \<or>
      (x < - 1000026 \<and> 2 * (\<bar>c\<bar> mod 10 ^ nat (- x)) \<le> 10 ^ nat (- 1000026 - x)))"

definition mod_one_is_zero :: "decimal \<Rightarrow> py_exc + bool" where
  "mod_one_is_zero d =
     (case d of
        DFin c x \<Rightarrow>
          if c \<noteq> 0 \<and> 28 < digit_length \<bar>c\<bar> + x
          then Inl (Exc InvalidOperation ''quotient too large in //, % or divmod'')
          else Inr (zero_fraction c x)
      | DInf s \<Rightarrow> Inl (Exc InvalidOperation ''INF % x'')
      | DNaN signalling \<Rightarrow>
          if signalling then Inl (Exc InvalidOperation ''sNaN'') else Inr False)"

text \<open>\<^verbatim>\<open>float(value)\<close> for a \<^verbatim>\<open>Decimal\<close>.\<close>

definition py_float :: "decimal \<Rightarrow> py_exc + pyfloat" where
  "py_float d =
     (case d of
        DFin c x \<Rightarrow>
          Inr (if c = 0 then FFin 0 0
               else if 0 < c then round_double (dec_fraction c x)
               else (case round_double (dec_fraction (- c) x) of
                       FFin m e \<Rightarrow> FFin (- m) e
                     | FInf s \<Rightarrow> FInf (\<not> s)
                     | FNaN \<Rightarrow> FNaN))
      | DInf s \<Rightarrow> Inr (FInf s)
      | DNaN signalling \<Rightarrow>
          if signalling then Inl (Exc ValueError ''cannot convert signaling NaN to float'')
          else Inr FNaN)"

section \<open>aws\_dynamodb.py: the numeric conversions\<close>

text \<open>
  The \<^verbatim>\<open>convert\<close> of \<^verbatim>\<open>_prepare_for_dynamo\<close>: floats become decimals, dictionaries and lists
  are rebuilt, anything else is kept.
\<close>

fun convert_prepare :: "pyval \<Rightarrow> pyval"
  and convert_prepare_list :: "pyval list \<Rightarrow> pyval list"
  and convert_prepare_items :: "item \<Rightarrow> item" where
  "convert_prepare (PFloat v) = PDecimal (decimal_of_float v)"
| "convert_prepare (PDict kvs) = PDict (convert_prepare_items kvs)"
| "convert_prepare (PList vs) = PList (convert_prepare_list vs)"
| "convert_prepare PNone = PNone"
| "convert_prepare (PBool b) = PBool b"
| "convert_prepare (PInt i) = PInt i"
| "convert_prepare (PDecimal d) = PDecimal d"
| "convert_prepare (PStr s) = PStr s"
| "convert_prepare_list [] = []"
| "convert_prepare_list (v # vs) = convert_prepare v # convert_prepare_list vs"
| "convert_prepare_items [] = []"
| "convert_prepare_items ((k, v) # kvs) = (k, convert_prepare v) # convert_prepare_items kvs"

definition prepare_for_dynamo :: "item \<Rightarrow> item" where
  "prepare_for_dynamo item = convert_prepare_items item"

text \<open>
  The \<^verbatim>\<open>convert\<close> of \<^verbatim>\<open>_deserialize_item\<close>: a decimal becomes \<^verbatim>\<open>int(value)\<close> when
  \<^verbatim>\<open>value % 1 == 0\<close> and \<^verbatim>\<open>float(value)\<close> otherwise; the first error raised on the way ends
  the conversion.
\<close>

fun convert_deserialize :: "limits \<Rightarrow> pyval \<Rightarrow> py_exc + pyval"
  and convert_deserialize_list :: "limits \<Rightarrow> pyval list \<Rightarrow> py_exc + pyval list"
  and convert_deserialize_items :: "limits \<Rightarrow> item \<Rightarrow> py_exc + item" where
  "convert_deserialize lims (PDecimal d) =
     (case mod_one_is_zero d of
        Inl err \<Rightarrow> Inl err
      | Inr whole \<Rightarrow>
          if whole then (case py_int lims (PDecimal d) of Inl err \<Rightarrow> Inl err | Inr i \<Rightarrow> Inr (PInt i))
          else (case py_float d of Inl err \<Rightarrow> Inl err | Inr v \<Rightarrow> Inr (PFloat v)))"
| "convert_deserialize lims (PDict kvs) =
     (case convert_deserialize_items lims kvs of Inl err \<Rightarrow> Inl err | Inr r \<Rightarrow> Inr (PDict r))"
| "convert_deserialize lims (PList vs) =
     (case convert_deserialize_list lims vs of Inl err \<Rightarrow> Inl err | Inr r \<Rightarrow> Inr (PList r))"
| "convert_deserialize lims PNone = Inr PNone"
| "convert_deserialize lims (PBool b) = Inr (PBool b)"
| "convert_deserialize lims (PInt i) = Inr (PInt i)"
| "convert_deserialize lims (PFloat v) = Inr (PFloat v)"
| "convert_deserialize lims (PStr s) = Inr (PStr s)"
| "convert_deserialize_list lims [] = Inr []"
| "convert_deserialize_list lims (v # vs) =
     (case convert_deserialize lims v of
        Inl err \<Rightarrow> Inl err
      | Inr r \<Rightarrow>
          (case convert_deserialize_list lims vs of Inl err \<Rightarrow> Inl err | Inr rs \<Rightarrow> Inr (r # rs)))"
| "convert_deserialize_items lims [] = Inr []"
| "convert_deserialize_items lims ((k, v) # kvs) =
     (case convert_deserialize lims v of
        Inl err \<Rightarrow> Inl err
      | Inr r \<Rightarrow>
          (case convert_deserialize_items lims kvs of
             Inl err \<Rightarrow> Inl err
           | Inr rs \<Rightarrow> Inr ((k, r) # rs)))"

text \<open>\<^verbatim>\<open>_deserialize_item\<close>: \<^verbatim>\<open>None\<close> for \<^verbatim>\<open>None\<close> and for the empty dictionary.\<close>

definition deserialize_item :: "limits \<Rightarrow> item option \<Rightarrow> py_exc + item option" where
  "deserialize_item lims item =
     (case item of
        None \<Rightarrow> Inr None
      | Some kvs \<Rightarrow>
          if kvs = [] then Inr None
          else (case convert_deserialize_items lims kvs of
                  Inl err \<Rightarrow> Inl err
                | Inr r \<Rightarrow> Inr (Some r)))"

text \<open>
  Python's \<^verbatim>\<open>==\<close> between the value read and the value written: an \<^verbatim>\<open>int\<close> equals a float
  when they are the same number; lists and dictionaries are compared entry by entry (in
  the same order, which both conversions keep).
\<close>

fun same_value :: "pyval \<Rightarrow> pyval \<Rightarrow> bool"
  and same_values :: "pyval list \<Rightarrow> pyval list \<Rightarrow> bool"
  and same_items :: "item \<Rightarrow> item \<Rightarrow> bool" where
  "same_value (PInt i) (PFloat v) = (case v of FFin m e \<Rightarrow> 0 \<le> e \<and> i = m * 2 ^ nat e | _ \<Rightarrow> False)"
| "same_value (PList xs) (PList ys) = same_values xs ys"
| "same_value (PDict xs) (PDict ys) = same_items xs ys"
| "same_value a b = (a = b)"
| "same_values [] ys = (ys = [])"
| "same_values (x # xs) ys = (case ys of [] \<Rightarrow> False | y # ys' \<Rightarrow> same_value x y \<and> same_values xs ys')"
| "same_items [] ys = (ys = [])"
| "same_items ((k, x) # xs) ys =
     (case ys of [] \<Rightarrow> False | (k', y) # ys' \<Rightarrow> k = k' \<and> same_value x y \<and> same_items xs ys')"

section \<open>aws\_dynamodb.py: scan\<close>

text \<open>
  The two requests \<open>scan_table\<close> sends: the first with the caller's keyword arguments
  \<open>'k\<close> (filters, projections, limits, whatever the caller passes), every later one
  with \<^verbatim>\<open>ExclusiveStartKey\<close> alone. The response is read with \<^verbatim>\<open>get("Items", [])\<close> and
  \<^verbatim>\<open>"LastEvaluatedKey" in response\<close>.
\<close>

datatype 'k scan_request = Scan_kwargs 'k | Scan_from item

record scan_response =
  Items :: "item list option"
  LastEvaluatedKey :: "item option"

text \<open>
  The \<^verbatim>\<open>while\<close> loop, which runs as long as the store keeps answering with a continuation
  key: \<open>None\<close> is the loop that never ends.
\<close>

partial_function (option) scan_rest ::
  "('k scan_request \<Rightarrow> 'w \<Rightarrow> (py_exc + scan_response) \<times> 'w) \<Rightarrow> scan_response \<Rightarrow> item list \<Rightarrow> 'w
     \<Rightarrow> ((py_exc + item list) \<times> 'w) option" where
  "scan_rest table_scan response items w =
     (case LastEvaluatedKey response of
        None \<Rightarrow> Some (Inr items, w)
      | Some k \<Rightarrow>
          (case table_scan (Scan_from k) w of
             (Inl e, w') \<Rightarrow> Some (Inl e, w')
           | (Inr response', w') \<Rightarrow>
               scan_rest table_scan response'
                 (items @ (case Items response' of None \<Rightarrow> [] | Some page \<Rightarrow> page)) w'))"

fun deserialize_all :: "limits \<Rightarrow> item list \<Rightarrow> py_exc + item option list" where
  "deserialize_all lims [] = Inr []"
| "deserialize_all lims (i # rest) =
     (case deserialize_item lims (Some i) of
        Inl e \<Rightarrow> Inl e
      | Inr r \<Rightarrow> (case deserialize_all lims rest of Inl e \<Rightarrow> Inl e | Inr rs \<Rightarrow> Inr (r # rs)))"

text \<open>
  \<^verbatim>\<open>DynamoDBManager.scan_table\<close>: any error, of a request or of the conversion of an item,
  is printed and the empty list returned.
\<close>

definition scan_table ::
  "limits \<Rightarrow> string \<Rightarrow> ('k scan_request \<Rightarrow> 'w \<Rightarrow> (py_exc + scan_response) \<times> 'w) \<Rightarrow> 'k \<Rightarrow> 'w
     \<Rightarrow> ((item option list \<times> string list) \<times> 'w) option" where
  "scan_table lims tname table_scan kwargs w =
     (case table_scan (Scan_kwargs kwargs) w of
        (Inl e, w1) \<Rightarrow> Some (([], [''Scan error in '' @ tname @ '': '' @ exc_msg e]), w1)
      | (Inr response, w1) \<Rightarrow>
          (case scan_rest table_scan response
                  (case Items response of None \<Rightarrow> [] | Some page \<Rightarrow> page) w1 of
             None \<Rightarrow> None
           | Some (Inl e, w2) \<Rightarrow>
               Some (([], [''Scan error in '' @ tname @ '': '' @ exc_msg e]), w2)
           | Some (Inr items, w2) \<Rightarrow>
               (case deserialize_all lims items of
                  Inl e \<Rightarrow> Some (([], [''Scan error in '' @ tname @ '': '' @ exc_msg e]), w2)
                | Inr result \<Rightarrow> Some ((result, []), w2))))"

text \<open>
  A table of two pages, for the example: shelf \<open>A\<close> holds a bolt, listed on the first page,
  and shelf \<open>B\<close> a nut, listed on the second. The keyword argument is the shelf to filter
  on, if any. The table answers each request as the store does: a request with the filter
  gets the page filtered, a request without it gets the page as it is. It records the
  requests it receives, latest first.
\<close>

definition two_page_table ::
  "string option scan_request \<Rightarrow> string option scan_request list
     \<Rightarrow> (py_exc + scan_response) \<times> string option scan_request list" where
  "two_page_table request w =
     (let page = (case request of
                    Scan_kwargs _ \<Rightarrow> [[(''id'', PStr ''bolt''), (''shelf'', PStr ''A'')]]
                  | Scan_from _ \<Rightarrow> [[(''id'', PStr ''nut''), (''shelf'', PStr ''B'')]]);
          wanted = (case request of Scan_kwargs (Some shelf) \<Rightarrow> Some shelf | _ \<Rightarrow> None)
      in (Inr \<lparr>Items = Some (filter (\<lambda>i. case wanted of
                                              None \<Rightarrow> True
                                            | Some shelf \<Rightarrow> map_of i ''shelf'' = Some (PStr shelf))
                                    page),
               LastEvaluatedKey = (case request of
                                     Scan_kwargs _ \<Rightarrow> Some [(''id'', PStr ''bolt'')]
                                   | Scan_from _ \<Rightarrow> None)\<rparr>,
          request # w))"

section \<open>aws\_dynamodb.py: update and the distributor inventory\<close>

record update_params =
  Key :: item
  UpdateExpression :: string
  ExpressionAttributeValues :: item
  ExpressionAttributeNames :: "(string \<times> string) list option"

text \<open>
  \<^verbatim>\<open>DynamoDBManager.update_item\<close>: the names are added to the request only when they are
  given and not empty; any error is printed and nothing is raised.
\<close>

definition update_item ::
  "string \<Rightarrow> (update_params \<Rightarrow> 'w \<Rightarrow> (py_exc + unit) \<times> 'w) \<Rightarrow> item \<Rightarrow> string \<Rightarrow> item
     \<Rightarrow> (string \<times> string) list option \<Rightarrow> 'w \<Rightarrow> ((py_exc + unit) \<times> string list) \<times> 'w" where
  "update_item tname table_update_item key update_expr vals names w =
     (case table_update_item
             \<lparr>Key = key, UpdateExpression = update_expr, ExpressionAttributeValues = vals,
              ExpressionAttributeNames =
                (case names of None \<Rightarrow> None | Some n \<Rightarrow> if n = [] then None else Some n)\<rparr> w of
        (Inr _, w') \<Rightarrow> ((Inr (), []), w')
      | (Inl e, w') \<Rightarrow> ((Inr (), [''Update error in '' @ tname @ '': '' @ exc_msg e]), w'))"

text \<open>
  \<^verbatim>\<open>DistributorInventoryManager.add_stock\<close>, on the table \<^verbatim>\<open>DistributorInventory\<close>. The
  identifiers are strings; \<^verbatim>\<open>int(quantity)\<close> is evaluated while the arguments are built,
  outside any \<^verbatim>\<open>try\<close>.
\<close>

definition add_stock ::
  "limits \<Rightarrow> (update_params \<Rightarrow> 'w \<Rightarrow> (py_exc + unit) \<times> 'w) \<Rightarrow> string \<Rightarrow> string \<Rightarrow> pyval \<Rightarrow> 'w
     \<Rightarrow> ((py_exc + unit) \<times> string list) \<times> 'w" where
  "add_stock lims table_update_item distributor_id product_id quantity w =
     (case py_int lims quantity of
        Inl e \<Rightarrow> ((Inl e, []), w)
      | Inr q \<Rightarrow>
          update_item ''DistributorInventory'' table_update_item
            [(''id'', PStr (distributor_id @ ''#'' @ product_id))]
            ''SET quantity = if_not_exists(quantity, :z) + :q''
            [('':q'', PInt q), ('':z'', PInt 0)] None w)"

text \<open>
  What the store documents for that update expression, as a relation between the
  quantity it holds under the key before and after a request: the quantity afterwards is
  the one before, or \<^verbatim>\<open>:z\<close> when there was none, plus \<^verbatim>\<open>:q\<close>. \<open>quantity_of\<close> reads the stored
  quantity of a key off the state of the store.
\<close>

definition increments_quantity ::
  "('w \<Rightarrow> item \<Rightarrow> int option) \<Rightarrow> 'w \<Rightarrow> update_params \<Rightarrow> 'w \<Rightarrow> bool" where
  "increments_quantity quantity_of w request w' =
     (case (map_of (ExpressionAttributeValues request) '':z'',
            map_of (ExpressionAttributeValues request) '':q'') of
        (Some (PInt z), Some (PInt q)) \<Rightarrow>
          quantity_of w' (Key request) =
            Some ((case quantity_of w (Key request) of None \<Rightarrow> z | Some n \<Rightarrow> n) + q)
      | _ \<Rightarrow> False)"

text \<open>An example store for that: the quantities by key, updated as documented.\<close>

definition quantity_table ::
  "update_params \<Rightarrow> (item \<Rightarrow> int option) \<Rightarrow> (py_exc + unit) \<times> (item \<Rightarrow> int option)" where
  "quantity_table request w =
     (case (map_of (ExpressionAttributeValues request) '':z'',
            map_of (ExpressionAttributeValues request) '':q'') of
        (Some (PInt z), Some (PInt q)) \<Rightarrow>
          (Inr (), w(Key request \<mapsto> (case w (Key request) of None \<Rightarrow> z | Some n \<Rightarrow> n) + q))
      | _ \<Rightarrow> (Inl (Exc ClientError ''ValidationException''), w))"

section \<open>The floats that survive the round trip\<close>

text \<open>
  The floats the round trip is shown for: zero, and a finite double whose decimal encoding
  \<^verbatim>\<open>Decimal(str(v))\<close> is below \<open>10 ^ 28\<close> in magnitude and is either not a whole number, or a
  whole number equal to the float itself.
\<close>

definition float_round_trips :: "pyfloat \<Rightarrow> bool" where
  "float_round_trips v =
     (case v of
        FFin m e \<Rightarrow>
          (m = 0 \<and> e = 0) \<or>
          (m \<noteq> 0 \<and> is_double \<bar>m\<bar> e \<and>
           (case decimal_of_float v of
              DFin c x \<Rightarrow>
                digit_length \<bar>c\<bar> + x \<le> 28 \<and>
                (if zero_fraction c x then 0 \<le> e \<and> trunc 10 c x = m * 2 ^ nat e else True)
            | _ \<Rightarrow> False))
      | _ \<Rightarrow> False)"

fun floats_round_trip :: "pyval \<Rightarrow> bool"
  and floats_round_trip_list :: "pyval list \<Rightarrow> bool"
  and floats_round_trip_items :: "item \<Rightarrow> bool" where
  "floats_round_trip (PFloat v) = float_round_trips v"
| "floats_round_trip (PDecimal d) = False"
| "floats_round_trip (PDict kvs) = floats_round_trip_items kvs"
| "floats_round_trip (PList vs) = floats_round_trip_list vs"
| "floats_round_trip PNone = True"
| "floats_round_trip (PBool b) = True"
| "floats_round_trip (PInt i) = True"
| "floats_round_trip (PStr s) = True"
| "floats_round_trip_list [] = True"
| "floats_round_trip_list (v # vs) = (floats_round_trip v \<and> floats_round_trip_list vs)"
| "floats_round_trip_items [] = True"
| "floats_round_trip_items ((k, v) # kvs) = (floats_round_trip v \<and> floats_round_trip_items kvs)"

text \<open>Whether a float is left anywhere in a value.\<close>

fun has_float :: "pyval \<Rightarrow> bool"
  and has_float_list :: "pyval list \<Rightarrow> bool"
  and has_float_items :: "item \<Rightarrow> bool" where
  "has_float (PFloat v) = True"
| "has_float (PDict kvs) = has_float_items kvs"
| "has_float (PList vs) = has_float_list vs"
| "has_float PNone = False"
| "has_float (PBool b) = False"
| "has_float (PInt i) = False"
| "has_float (PDecimal d) = False"
| "has_float (PStr s) = False"
| "has_float_list [] = False"
| "has_float_list (v # vs) = (has_float v \<or> has_float_list vs)"
| "has_float_items [] = False"
| "has_float_items ((k, v) # kvs) = (has_float v \<or> has_float_items kvs)"

section \<open>Properties of the utility\<close>

text \<open>
  C10, as stated, fails: an infinite float makes \<^verbatim>\<open>int()\<close> raise \<^verbatim>\<open>OverflowError\<close>, which
  the handler does not catch, so \<open>below_threshold\<close> raises.
\<close>

theorem below_threshold_raises_overflow:
  "below_threshold default_limits (PFloat (FInf False)) (PInt 5) =
     Inl (Exc OverflowError ''cannot convert float infinity to integer'')"
  by (simp add: below_threshold_def)

text \<open>
  C10 (amended), for every setting of the interpreter's limits: when both inputs coerce,
  \<open>below_threshold\<close> returns the comparison of the two integers; when the first coercion to
  fail raises \<^verbatim>\<open>TypeError\<close> or \<^verbatim>\<open>ValueError\<close> it returns \<open>False\<close>; when the first coercion
  to fail raises an error of any other class (\<^verbatim>\<open>OverflowError\<close> for an infinity,
  \<^verbatim>\<open>MemoryError\<close> for a decimal too large to convert), that error is not caught and
  \<open>below_threshold\<close> raises it.
\<close>

theorem below_threshold_result:
  "(py_int lims q = Inr a \<and> py_int lims t = Inr b \<longrightarrow> below_threshold lims q t = Inr (a \<le> b)) \<and>
   (py_int lims q = Inl e \<and> (exc_cls e = TypeError \<or> exc_cls e = ValueError) \<longrightarrow>
      below_threshold lims q t = Inr False) \<and>
   (py_int lims q = Inr a \<and> py_int lims t = Inl e \<and>
      (exc_cls e = TypeError \<or> exc_cls e = ValueError) \<longrightarrow>
      below_threshold lims q t = Inr False) \<and>
   (py_int lims q = Inl e \<and> exc_cls e \<noteq> TypeError \<and> exc_cls e \<noteq> ValueError \<longrightarrow>
      below_threshold lims q t = Inl e) \<and>
   (py_int lims q = Inr a \<and> py_int lims t = Inl e \<and>
      exc_cls e \<noteq> TypeError \<and> exc_cls e \<noteq> ValueError \<longrightarrow>
      below_threshold lims q t = Inl e)"
  by (auto simp: below_threshold_def)

theorem below_threshold_result_witness:
  "below_threshold default_limits (PStr '' 7 '') (PInt 10) = Inr True \<and>
   below_threshold default_limits PNone (PInt 1) = Inr False \<and>
   below_threshold default_limits (PInt 3) (PStr ''x'') = Inr False \<and>
   below_threshold \<lparr>int_max_str_digits = 3, memory_digits = 100, recursion_depth = 10\<rparr>
       (PStr ''1234'') (PInt 3) = Inr False \<and>
   below_threshold default_limits (PDecimal (DInf True)) (PInt 1) =
     Inl (Exc OverflowError ''cannot convert Infinity to integer'') \<and>
   below_threshold default_limits (PInt 3) (PDecimal (DFin 1 2000000)) = Inl (Exc MemoryError [])"
proof -
  have a: "py_int default_limits (PStr '' 7 '') = Inr 7"
    by (simp add: int_of_str_def int_space_def is_digit_def digit_val_def too_many_digits_def
        default_limits_def)
  have b: "py_int default_limits (PStr ''x'') = Inl (Exc ValueError ''invalid literal for int()'')"
    by (simp add: int_of_str_def int_space_def is_digit_def digit_val_def)
  have c: "py_int \<lparr>int_max_str_digits = 3, memory_digits = 100, recursion_depth = 10\<rparr> (PStr ''1234'') =
             Inl (Exc ValueError ''Exceeds the limit for integer string conversion'')"
    by (simp add: int_of_str_def int_space_def is_digit_def digit_val_def too_many_digits_def)
  have d: "py_int default_limits (PDecimal (DFin 1 2000000)) = Inl (Exc MemoryError [])"
    by (simp add: default_limits_def digit_length.simps)
  have "below_threshold default_limits (PStr '' 7 '') (PInt 10) = Inr True"
    using below_threshold_result [of default_limits "PStr '' 7 ''" 7 "PInt 10" 10] a by simp
  moreover have "below_threshold default_limits PNone (PInt 1) = Inr False"
    using below_threshold_result
      [of default_limits PNone _ "PInt 1" _
          "Exc TypeError ''int() argument must be a string or a number''"]
    by simp
  moreover have "below_threshold default_limits (PInt 3) (PStr ''x'') = Inr False"
    using below_threshold_result
      [of default_limits "PInt 3" 3 "PStr ''x''" _ "Exc ValueError ''invalid literal for int()''"] b
    by simp
  moreover have "below_threshold \<lparr>int_max_str_digits = 3, memory_digits = 100, recursion_depth = 10\<rparr>
       (PStr ''1234'') (PInt 3) = Inr False"
    using below_threshold_result
      [of "\<lparr>int_max_str_digits = 3, memory_digits = 100, recursion_depth = 10\<rparr>" "PStr ''1234''" _
          "PInt 3" _ "Exc ValueError ''Exceeds the limit for integer string conversion''"] c
    by simp
  moreover have "below_threshold default_limits (PDecimal (DInf True)) (PInt 1) =
     Inl (Exc OverflowError ''cannot convert Infinity to integer'')"
    using below_threshold_result
      [of default_limits "PDecimal (DInf True)" _ "PInt 1" _
          "Exc OverflowError ''cannot convert Infinity to integer''"]
    by simp
  moreover have "below_threshold default_limits (PInt 3) (PDecimal (DFin 1 2000000)) =
     Inl (Exc MemoryError [])"
    using below_threshold_result
      [of default_limits "PInt 3" 3 "PDecimal (DFin 1 2000000)" _ "Exc MemoryError []"] d
    by simp
  ultimately show ?thesis by simp
qed

section \<open>Properties of the Table Adapter's get\<close>

text \<open>
  C4: \<open>get_item\<close> never raises. Whatever the table's \<^verbatim>\<open>get_item\<close> does for the key, the
  result is a returned value; when the response carries no item (the key does not exist)
  the value is \<^verbatim>\<open>None\<close> and nothing is printed; when the table raises, the value is \<^verbatim>\<open>None\<close>
  too and one line with the error is printed.
\<close>

theorem get_item_never_raises:
  "(\<exists>v out. get_item tname tg key = (Inr v, out)) \<and>
   (tg key = Inr \<lparr>Item = None\<rparr> \<longrightarrow> get_item tname tg key = (Inr PNone, [])) \<and>
   (tg key = Inl e \<longrightarrow>
      get_item tname tg key = (Inr PNone, [''Get error in '' @ tname @ '': '' @ exc_msg e]))"
  by (cases "tg key") (simp_all add: get_item_def)

theorem get_item_never_raises_witness:
  "get_item ''Suppliers'' (\<lambda>k. Inr \<lparr>Item = None\<rparr>) [(''id'', PStr ''s1'')] = (Inr PNone, []) \<and>
   get_item ''Suppliers'' (\<lambda>k. Inl (Exc ClientError ''throttled'')) [(''id'', PStr ''s1'')] =
     (Inr PNone, [''Get error in Suppliers: throttled''])"
  using get_item_never_raises
      [of "''Suppliers''" "\<lambda>k. Inr \<lparr>Item = None\<rparr>" "[(''id'', PStr ''s1'')]"]
    get_item_never_raises
      [of "''Suppliers''" "\<lambda>k. Inl (Exc ClientError ''throttled'')" "[(''id'', PStr ''s1'')]"
        "Exc ClientError ''throttled''"]
  by simp

section \<open>Properties of the Function Invoker\<close>

text \<open>
  C9, as stated, fails: the handler catches \<^verbatim>\<open>ClientError\<close> only. A payload holding a
  \<^verbatim>\<open>Decimal\<close> (as every number of an item read with \<open>get_item\<close> is) makes \<^verbatim>\<open>json.dumps\<close>
  raise \<^verbatim>\<open>TypeError\<close> inside the \<^verbatim>\<open>try\<close>, and the error reaches the caller before the
  service is called (the counter of calls stays 0); and an error of the SDK that is no
  \<^verbatim>\<open>ClientError\<close>, such as a failed connection, reaches the caller as well.
\<close>

theorem invoke_function_propagates_other_errors:
  "invoke_function default_limits (\<lambda>req (n::nat). (Inr PNone, Suc n)) ''reorder''
       (PDict [(''price'', PDecimal (DFin 15 (- 1)))]) ''Event'' 0 =
     ((Inl (Exc TypeError ''Object of type Decimal is not JSON serializable''), []), 0) \<and>
   invoke_function default_limits
       (\<lambda>req (n::nat). (Inl (Exc OtherError ''Could not connect to the endpoint URL''), Suc n))
       ''reorder'' (PDict [(''sku'', PStr ''A1'')]) ''Event'' 0 =
     ((Inl (Exc OtherError ''Could not connect to the endpoint URL''), []), Suc 0)"
  by (simp add: invoke_function_def json_dumps_def default_limits_def)

lemma json_error_class:
  shows "json_error lims d v = Some e \<Longrightarrow> exc_cls e \<noteq> ClientError"
    and "json_error_list lims d vs = Some e \<Longrightarrow> exc_cls e \<noteq> ClientError"
    and "json_error_items lims d kvs = Some e \<Longrightarrow> exc_cls e \<noteq> ClientError"
  by (induction lims d v and lims d vs and lims d kvs
      rule: json_error_json_error_list_json_error_items.induct)
     (auto split: if_splits option.splits)

lemma json_dumps_error_class: "json_dumps lims v = Inl e \<Longrightarrow> exc_cls e \<noteq> ClientError"
  using json_error_class(1) [of lims 0 v e] by (auto simp: json_dumps_def split: option.splits)

text \<open>
  C9 (amended), for every function name, payload, invocation mode and setting of the
  interpreter's limits: when serialising the payload raises, that error propagates and
  the service is not called; when the service call raises a \<^verbatim>\<open>ClientError\<close> the invoker
  returns \<^verbatim>\<open>None\<close>, prints one line and leaves the service in the state that one call left
  it in (the request is not sent again); when the service call raises an error of any
  other class, that error propagates; and when the call succeeds its response is
  returned.
\<close>

theorem invoke_function_result:
  "(json_dumps lims payload = Inl e \<longrightarrow>
      invoke_function lims invoke fn payload mode w = ((Inl e, []), w)) \<and>
   (json_dumps lims payload = Inr body \<and>
    invoke \<lparr>FunctionName = fn, InvocationType = mode, Payload = body\<rparr> w = (Inl e, w') \<and>
    exc_cls e = ClientError \<longrightarrow>
      invoke_function lims invoke fn payload mode w =
        ((Inr PNone, ['' Lambda invocation failed: '' @ exc_msg e]), w')) \<and>
   (json_dumps lims payload = Inr body \<and>
    invoke \<lparr>FunctionName = fn, InvocationType = mode, Payload = body\<rparr> w = (Inl e, w') \<and>
    exc_cls e \<noteq> ClientError \<longrightarrow>
      invoke_function lims invoke fn payload mode w = ((Inl e, []), w')) \<and>
   (json_dumps lims payload = Inr body \<and>
    invoke \<lparr>FunctionName = fn, InvocationType = mode, Payload = body\<rparr> w = (Inr response, w') \<longrightarrow>
      invoke_function lims invoke fn payload mode w =
        ((Inr response, ['' Invoked Lambda: '' @ fn]), w'))"
  using json_dumps_error_class [of lims payload e] by (auto simp: invoke_function_def)

theorem invoke_function_result_witness:
  "invoke_function default_limits
       (\<lambda>req (n::nat). (Inl (Exc ClientError ''no such function''), Suc n))
       ''reorder'' (PDict [(''sku'', PStr ''A1''), (''qty'', PInt 3)]) ''RequestResponse'' 0 =
     ((Inr PNone, ['' Lambda invocation failed: no such function'']), Suc 0) \<and>
   invoke_function default_limits
       (\<lambda>req (n::nat). (Inl (Exc OtherError ''no credentials''), Suc n))
       ''reorder'' (PDict [(''sku'', PStr ''A1''), (''qty'', PInt 3)]) ''RequestResponse'' 0 =
     ((Inl (Exc OtherError ''no credentials''), []), Suc 0) \<and>
   invoke_function default_limits (\<lambda>req (n::nat). (Inr PNone, Suc n))
       ''reorder'' (PList [PDecimal (DFin 4 0)]) ''Event'' 0 =
     ((Inl (Exc TypeError ''Object of type Decimal is not JSON serializable''), []), 0) \<and>
   invoke_function default_limits (\<lambda>req (n::nat). (Inr (PStr ''accepted''), Suc n))
       ''reorder'' (PDict [(''sku'', PStr ''A1''), (''qty'', PInt 3)]) ''Event'' 0 =
     ((Inr (PStr ''accepted''), ['' Invoked Lambda: reorder'']), Suc 0)"
proof -
  have ok: "json_dumps default_limits (PDict [(''sku'', PStr ''A1''), (''qty'', PInt 3)]) =
              Inr (PDict [(''sku'', PStr ''A1''), (''qty'', PInt 3)])"
    by (simp add: json_dumps_def default_limits_def too_many_digits_def digit_length.simps)
  have bad: "json_dumps default_limits (PList [PDecimal (DFin 4 0)]) =
               Inl (Exc TypeError ''Object of type Decimal is not JSON serializable'')"
    by (simp add: json_dumps_def default_limits_def)
  have "invoke_function default_limits
       (\<lambda>req (n::nat). (Inl (Exc ClientError ''no such function''), Suc n))
       ''reorder'' (PDict [(''sku'', PStr ''A1''), (''qty'', PInt 3)]) ''RequestResponse'' 0 =
     ((Inr PNone, ['' Lambda invocation failed: no such function'']), Suc 0)"
    using ok invoke_function_result
      [of default_limits "PDict [(''sku'', PStr ''A1''), (''qty'', PInt 3)]"
          "Exc ClientError ''no such function''"
          "\<lambda>req (n::nat). (Inl (Exc ClientError ''no such function''), Suc n)"
          "''reorder''" "''RequestResponse''" 0
          "PDict [(''sku'', PStr ''A1''), (''qty'', PInt 3)]" "Suc 0"]
    by simp
  moreover have "invoke_function default_limits
       (\<lambda>req (n::nat). (Inl (Exc OtherError ''no credentials''), Suc n))
       ''reorder'' (PDict [(''sku'', PStr ''A1''), (''qty'', PInt 3)]) ''RequestResponse'' 0 =
     ((Inl (Exc OtherError ''no credentials''), []), Suc 0)"
    using ok invoke_function_result
      [of default_limits "PDict [(''sku'', PStr ''A1''), (''qty'', PInt 3)]"
          "Exc OtherError ''no credentials''"
          "\<lambda>req (n::nat). (Inl (Exc OtherError ''no credentials''), Suc n)"
          "''reorder''" "''RequestResponse''" 0
          "PDict [(''sku'', PStr ''A1''), (''qty'', PInt 3)]" "Suc 0"]
    by simp
  moreover have "invoke_function default_limits (\<lambda>req (n::nat). (Inr PNone, Suc n))
       ''reorder'' (PList [PDecimal (DFin 4 0)]) ''Event'' 0 =
     ((Inl (Exc TypeError ''Object of type Decimal is not JSON serializable''), []), 0)"
    using bad invoke_function_result
      [of default_limits "PList [PDecimal (DFin 4 0)]"
          "Exc TypeError ''Object of type Decimal is not JSON serializable''"
          "\<lambda>req (n::nat). (Inr PNone, Suc n)" "''reorder''" "''Event''" 0]
    by simp
  moreover have "invoke_function default_limits (\<lambda>req (n::nat). (Inr (PStr ''accepted''), Suc n))
       ''reorder'' (PDict [(''sku'', PStr ''A1''), (''qty'', PInt 3)]) ''Event'' 0 =
     ((Inr (PStr ''accepted''), ['' Invoked Lambda: reorder'']), Suc 0)"
    using ok invoke_function_result
      [of default_limits "PDict [(''sku'', PStr ''A1''), (''qty'', PInt 3)]" _
          "\<lambda>req (n::nat). (Inr (PStr ''accepted''), Suc n)"
          "''reorder''" "''Event''" 0
          "PDict [(''sku'', PStr ''A1''), (''qty'', PInt 3)]" _ "PStr ''accepted''"]
    by simp
  ultimately show ?thesis by simp
qed

section \<open>Properties of the Object Store Adapter's constructor\<close>

lemma all_dropWhile: "(\<forall>x \<in> set (dropWhile P xs). P x) = (\<forall>x \<in> set xs. P x)"
  by (induction xs) auto

lemma strip_empty_iff: "(strip s = []) = (\<forall>c \<in> set s. str_space c)"
  by (simp add: strip_def all_dropWhile)

text \<open>
  C5: when the bucket name is not a string, or is a string of whitespace only (the empty
  string included), the constructor raises \<^verbatim>\<open>ValueError\<close> and the outside world is
  untouched, whatever the SDK would have done: no client is created, no bucket is listed
  or created.
\<close>

theorem s3_init_rejects_invalid_bucket_name:
  assumes "(\<forall>s. bucket \<noteq> PStr s) \<or> (\<exists>s. bucket = PStr s \<and> (\<forall>c \<in> set s. str_space c))"
  shows "s3_init api bucket region w =
           ((Inl (Exc ValueError
               ''S3Manager: A valid S3 bucket name (string) must be provided.''), []), w)"
  using assms by (cases bucket) (auto simp: s3_init_def strip_empty_iff)

theorem s3_init_rejects_invalid_bucket_name_witness:
  "s3_init (recording_s3 []) PNone None [] =
     ((Inl (Exc ValueError
         ''S3Manager: A valid S3 bucket name (string) must be provided.''), []), []) \<and>
   s3_init (recording_s3 []) (PStr [CHR '' '', CHR 0x09]) (Some ''eu-west-1'') [] =
     ((Inl (Exc ValueError
         ''S3Manager: A valid S3 bucket name (string) must be provided.''), []), [])"
proof -
  have "\<forall>c \<in> set [CHR '' '', CHR 0x09]. str_space c"
    by (simp add: str_space_def)
  then show ?thesis
    using s3_init_rejects_invalid_bucket_name [of PNone "recording_s3 []" None "[]"]
      s3_init_rejects_invalid_bucket_name
        [of "PStr [CHR '' '', CHR 0x09]" "recording_s3 []" "Some ''eu-west-1''" "[]"]
    by simp
qed

text \<open>
  For contrast, a valid name reaches the SDK: the client is created, the buckets are
  listed and the missing bucket is created with the region's location constraint.
\<close>

lemma s3_init_valid_name_example:
  "snd (s3_init (recording_s3 [''other'']) (PStr '' stock '') (Some ''eu-west-1'') []) =
     [Create_bucket ''stock'' (Some ''eu-west-1''), List_buckets, New_client ''eu-west-1'']"
  by (simp add: s3_init_def ensure_bucket_exists_def recording_s3_def strip_def str_space_def)

section \<open>Properties of the Notification Adapter\<close>

text \<open>
  C6: with no topic handle set (\<^verbatim>\<open>None\<close> or the empty string), each of \<open>subscribe\<close>,
  \<open>list_subscriptions\<close>, \<open>publish_message\<close>, \<open>send_low_stock_alert\<close> and
  \<open>ensure_customer_subscription\<close> raises \<^verbatim>\<open>ValueError\<close>, and leaves the adapter and the
  service as they were, whatever the client would have done with a request.
\<close>

theorem no_topic_is_precondition_error:
  assumes "topic_arn self = None \<or> topic_arn self = Some []"
  shows "subscribe lims client self protocol endpoint filter_policy w =
           ((Inl (Exc ValueError
               ''Topic ARN not set. Set or create a topic before subscribing.''), self), w) \<and>
         list_subscriptions client self w =
           ((Inl (Exc ValueError ''Topic ARN not set.''), self), w) \<and>
         publish_message client self subject message message_attributes w =
           ((Inl (Exc ValueError ''Topic ARN not set.''), self), w) \<and>
         send_low_stock_alert client self product_name quantity w =
           ((Inl (Exc ValueError ''Topic ARN not set.''), self), w) \<and>
         ensure_customer_subscription lims client self customer_email w =
           ((Inl (Exc ValueError ''Topic ARN not set.''), self), w)"
  using assms
  by (auto simp: subscribe_def list_subscriptions_def publish_message_def
      send_low_stock_alert_def ensure_customer_subscription_def)

theorem no_topic_is_precondition_error_witness:
  "subscribe default_limits (recording_sns [] ''t:1'') \<lparr>topic_arn = None\<rparr> ''email'' ''a@b.c'' None [] =
     ((Inl (Exc ValueError ''Topic ARN not set. Set or create a topic before subscribing.''),
       \<lparr>topic_arn = None\<rparr>), []) \<and>
   publish_message (recording_sns [] ''t:1'') \<lparr>topic_arn = None\<rparr> ''Low Stock Alert''
       (PStr ''low'') None [] =
     ((Inl (Exc ValueError ''Topic ARN not set.''), \<lparr>topic_arn = None\<rparr>), []) \<and>
   ensure_customer_subscription default_limits (recording_sns [] ''t:1'') \<lparr>topic_arn = Some []\<rparr>
       ''a@b.c'' [] =
     ((Inl (Exc ValueError ''Topic ARN not set.''), \<lparr>topic_arn = Some []\<rparr>), [])"
  using no_topic_is_precondition_error
      [of "\<lparr>topic_arn = None\<rparr>" default_limits "recording_sns [] ''t:1''" "''email''" "''a@b.c''"
          None "[]" "''Low Stock Alert''" "PStr ''low''" None]
    no_topic_is_precondition_error
      [of "\<lparr>topic_arn = Some []\<rparr>" default_limits "recording_sns [] ''t:1''" _ _ _ "[]" _ _ _ _ _
          "''a@b.c''"]
  by simp

text \<open>
  C7, as stated, fails: whether the second call returns the handle of the first depends
  on what the service lists. \<^verbatim>\<open>subscribe\<close> is sent with \<^verbatim>\<open>ReturnSubscriptionArn=True\<close>, so the
  first call returns the ARN of the new subscription; an e-mail subscription awaiting
  confirmation is listed under the handle \<^verbatim>\<open>PendingConfirmation\<close>, and that is what the
  second call returns.
\<close>

theorem ensure_customer_subscription_handles_differ:
  "ensure_customer_subscription default_limits pending_sns \<lparr>topic_arn = Some ''t''\<rparr> ''a@b.c'' [] =
     ((Inr (Some ''t:1f0c''), \<lparr>topic_arn = Some ''t''\<rparr>),
      [\<lparr>SubscriptionArn = Some ''PendingConfirmation'', Endpoint = Some ''a@b.c'',
        Protocol = Some ''email''\<rparr>]) \<and>
   ensure_customer_subscription default_limits pending_sns \<lparr>topic_arn = Some ''t''\<rparr> ''a@b.c''
       [\<lparr>SubscriptionArn = Some ''PendingConfirmation'', Endpoint = Some ''a@b.c'',
         Protocol = Some ''email''\<rparr>] =
     ((Inr (Some ''PendingConfirmation''), \<lparr>topic_arn = Some ''t''\<rparr>),
      [\<lparr>SubscriptionArn = Some ''PendingConfirmation'', Endpoint = Some ''a@b.c'',
        Protocol = Some ''email''\<rparr>])"
  by (simp add: ensure_customer_subscription_def list_subscriptions_def subscribe_def
      pending_sns_def json_dumps_def default_limits_def)

text \<open>
  C7 (amended), for every client and every e-mail address, with the topic handle set:
  when the listing the service returns holds a subscription whose endpoint is the
  address, \<open>ensure_customer_subscription\<close> returns the handle the listing gives for the
  first such subscription and sends nothing but the listing request; when the listing
  holds none, it sends one \<^verbatim>\<open>subscribe\<close> request for the address (protocol \<^verbatim>\<open>email\<close>, a
  filter policy on \<^verbatim>\<open>customer_email\<close>, the ARN asked for) and returns the handle the service
  answers with. So a second call returns the handle \<open>h\<close> of the first exactly when the
  listing it gets reports the address first under \<open>h\<close>.
\<close>

theorem ensure_customer_subscription_result:
  assumes "topic_arn self = Some arn" and "arn \<noteq> []"
  shows "(sns_list_subscriptions_by_topic client arn w = (Inr (Some listed), w1) \<and>
          find (\<lambda>sub. Endpoint sub = Some email) listed = Some sub \<longrightarrow>
            ensure_customer_subscription lims client self email w =
              ((Inr (SubscriptionArn sub), self), w1)) \<and>
         (sns_list_subscriptions_by_topic client arn w = (Inr (Some listed), w1) \<and>
          find (\<lambda>sub. Endpoint sub = Some email) listed = None \<and>
          2 \<le> recursion_depth lims \<and>
          sns_subscribe client
            \<lparr>req_TopicArn = arn, req_Protocol = ''email'', req_Endpoint = email,
             req_Attributes =
               [(''FilterPolicy'', PDict [(''customer_email'', PList [PStr email])])],
             req_ReturnSubscriptionArn = True\<rparr> w1 = (Inr new_arn, w2) \<longrightarrow>
            ensure_customer_subscription lims client self email w =
              ((Inr (Some new_arn), self), w2)) \<and>
         (sns_list_subscriptions_by_topic client arn w = (Inr (Some listed), w1) \<and>
          find (\<lambda>sub. Endpoint sub = Some email) listed = Some sub \<longrightarrow>
            (ensure_customer_subscription lims client self email w = ((Inr h, self), w1)) =
            (SubscriptionArn sub = h))"
  using assms
  by (auto simp: ensure_customer_subscription_def list_subscriptions_def subscribe_def
      json_dumps_def numeral_2_eq_2 Suc_le_eq)

theorem ensure_customer_subscription_result_witness:
  "ensure_customer_subscription default_limits
       (recording_sns [\<lparr>SubscriptionArn = Some ''t:7'', Endpoint = Some ''a@b.c'',
                        Protocol = Some ''email''\<rparr>] ''t:8'')
       \<lparr>topic_arn = Some ''t''\<rparr> ''a@b.c'' [] =
     ((Inr (Some ''t:7''), \<lparr>topic_arn = Some ''t''\<rparr>), [List_subscriptions_call ''t'']) \<and>
   ensure_customer_subscription default_limits (recording_sns [] ''t:8'')
       \<lparr>topic_arn = Some ''t''\<rparr> ''a@b.c'' [] =
     ((Inr (Some ''t:8''), \<lparr>topic_arn = Some ''t''\<rparr>),
      [Subscribe_call
         \<lparr>req_TopicArn = ''t'', req_Protocol = ''email'', req_Endpoint = ''a@b.c'',
          req_Attributes =
            [(''FilterPolicy'', PDict [(''customer_email'', PList [PStr ''a@b.c''])])],
          req_ReturnSubscriptionArn = True\<rparr>,
       List_subscriptions_call ''t''])"
proof -
  have "ensure_customer_subscription default_limits
       (recording_sns [\<lparr>SubscriptionArn = Some ''t:7'', Endpoint = Some ''a@b.c'',
                        Protocol = Some ''email''\<rparr>] ''t:8'')
       \<lparr>topic_arn = Some ''t''\<rparr> ''a@b.c'' [] =
     ((Inr (Some ''t:7''), \<lparr>topic_arn = Some ''t''\<rparr>), [List_subscriptions_call ''t''])"
    using ensure_customer_subscription_result
      [of "\<lparr>topic_arn = Some ''t''\<rparr>" "''t''"
          "recording_sns [\<lparr>SubscriptionArn = Some ''t:7'', Endpoint = Some ''a@b.c'',
                           Protocol = Some ''email''\<rparr>] ''t:8''"
          "[]"
          "[\<lparr>SubscriptionArn = Some ''t:7'', Endpoint = Some ''a@b.c'', Protocol = Some ''email''\<rparr>]"
          "[List_subscriptions_call ''t'']" "''a@b.c''"
          "\<lparr>SubscriptionArn = Some ''t:7'', Endpoint = Some ''a@b.c'', Protocol = Some ''email''\<rparr>"
          default_limits]
    by (simp add: recording_sns_def)
  moreover have "ensure_customer_subscription default_limits (recording_sns [] ''t:8'')
       \<lparr>topic_arn = Some ''t''\<rparr> ''a@b.c'' [] =
     ((Inr (Some ''t:8''), \<lparr>topic_arn = Some ''t''\<rparr>),
      [Subscribe_call
         \<lparr>req_TopicArn = ''t'', req_Protocol = ''email'', req_Endpoint = ''a@b.c'',
          req_Attributes =
            [(''FilterPolicy'', PDict [(''customer_email'', PList [PStr ''a@b.c''])])],
          req_ReturnSubscriptionArn = True\<rparr>,
       List_subscriptions_call ''t''])"
    using ensure_customer_subscription_result
      [of "\<lparr>topic_arn = Some ''t''\<rparr>" "''t''" "recording_sns [] ''t:8''" "[]" "[]"
          "[List_subscriptions_call ''t'']" "''a@b.c''" _ default_limits "''t:8''"
          "[Subscribe_call
             \<lparr>req_TopicArn = ''t'', req_Protocol = ''email'', req_Endpoint = ''a@b.c'',
              req_Attributes =
                [(''FilterPolicy'', PDict [(''customer_email'', PList [PStr ''a@b.c''])])],
              req_ReturnSubscriptionArn = True\<rparr>,
            List_subscriptions_call ''t'']"]
    by (simp add: recording_sns_def default_limits_def)
  ultimately show ?thesis by simp
qed

section \<open>Properties of scan\<close>

text \<open>
  C2: \<open>scan_table\<close> does not return the union of the pages of the scan it was asked for
  when the caller passes arguments. The continuation request carries the continuation
  key alone (the keyword arguments are not passed on), so with a filter on shelf \<open>A\<close> the
  second page comes back unfiltered and the nut of shelf \<open>B\<close> is returned. Without
  arguments both pages are returned, as they are here for the call without a filter.
\<close>

theorem scan_table_drops_the_filter:
  "scan_table default_limits ''Parts'' two_page_table (Some ''A'') [] =
     Some (([Some [(''id'', PStr ''bolt''), (''shelf'', PStr ''A'')],
             Some [(''id'', PStr ''nut''), (''shelf'', PStr ''B'')]], []),
           [Scan_from [(''id'', PStr ''bolt'')], Scan_kwargs (Some ''A'')]) \<and>
   scan_table default_limits ''Parts'' two_page_table None [] =
     Some (([Some [(''id'', PStr ''bolt''), (''shelf'', PStr ''A'')],
             Some [(''id'', PStr ''nut''), (''shelf'', PStr ''B'')]], []),
           [Scan_from [(''id'', PStr ''bolt'')], Scan_kwargs None])"
  by (simp add: scan_table_def scan_rest.simps two_page_table_def deserialize_item_def)

section \<open>Properties of add\_stock\<close>

text \<open>
  C3: for an integer quantity, \<open>add_stock\<close> never raises and sends exactly one update
  request: the key \<^verbatim>\<open>id\<close> is the two identifiers joined by \<^verbatim>\<open>#\<close>, the expression is
  \<^verbatim>\<open>SET quantity = if_not_exists(quantity, :z) + :q\<close> with \<^verbatim>\<open>:z\<close> bound to 0 and \<^verbatim>\<open>:q\<close> to the
  quantity. So when the key holds no quantity and the store carries out the two requests
  as documented, two calls with \<open>a\<close> and then \<open>b\<close> leave the quantity \<open>a + b\<close>.
\<close>

theorem add_stock_twice:
  assumes "quantity_of w [(''id'', PStr (d @ ''#'' @ p))] = None"
    and "table_update_item
           \<lparr>Key = [(''id'', PStr (d @ ''#'' @ p))],
            UpdateExpression = ''SET quantity = if_not_exists(quantity, :z) + :q'',
            ExpressionAttributeValues = [('':q'', PInt a), ('':z'', PInt 0)],
            ExpressionAttributeNames = None\<rparr> w = (Inr (), w1)"
    and "increments_quantity quantity_of w
           \<lparr>Key = [(''id'', PStr (d @ ''#'' @ p))],
            UpdateExpression = ''SET quantity = if_not_exists(quantity, :z) + :q'',
            ExpressionAttributeValues = [('':q'', PInt a), ('':z'', PInt 0)],
            ExpressionAttributeNames = None\<rparr> w1"
    and "table_update_item
           \<lparr>Key = [(''id'', PStr (d @ ''#'' @ p))],
            UpdateExpression = ''SET quantity = if_not_exists(quantity, :z) + :q'',
            ExpressionAttributeValues = [('':q'', PInt b), ('':z'', PInt 0)],
            ExpressionAttributeNames = None\<rparr> w1 = (Inr (), w2)"
    and "increments_quantity quantity_of w1
           \<lparr>Key = [(''id'', PStr (d @ ''#'' @ p))],
            UpdateExpression = ''SET quantity = if_not_exists(quantity, :z) + :q'',
            ExpressionAttributeValues = [('':q'', PInt b), ('':z'', PInt 0)],
            ExpressionAttributeNames = None\<rparr> w2"
  shows "add_stock lims table_update_item d p (PInt a) w = ((Inr (), []), w1) \<and>
         add_stock lims table_update_item d p (PInt b) w1 = ((Inr (), []), w2) \<and>
         quantity_of w2 [(''id'', PStr (d @ ''#'' @ p))] = Some (a + b)"
  using assms by (simp add: add_stock_def update_item_def increments_quantity_def)

theorem add_stock_twice_witness:
  "add_stock default_limits quantity_table ''d7'' ''bolt'' (PInt 5) Map.empty =
     ((Inr (), []), [[(''id'', PStr ''d7#bolt'')] \<mapsto> 5]) \<and>
   add_stock default_limits quantity_table ''d7'' ''bolt'' (PInt 3)
       [[(''id'', PStr ''d7#bolt'')] \<mapsto> 5] =
     ((Inr (), []), [[(''id'', PStr ''d7#bolt'')] \<mapsto> 8]) \<and>
   [[(''id'', PStr ''d7#bolt'')] \<mapsto> (8::int)] [(''id'', PStr ''d7#bolt'')] = Some (5 + 3)"
  using add_stock_twice
    [of "\<lambda>w. w" Map.empty "''d7''" "''bolt''" quantity_table 5
        "[[(''id'', PStr ''d7#bolt'')] \<mapsto> 5]" 3 "[[(''id'', PStr ''d7#bolt'')] \<mapsto> 8]"
        default_limits]
  by (simp add: quantity_table_def increments_quantity_def)

text \<open>
  The request is the same whatever the store does with it, and an error of the store is
  printed, not raised.
\<close>

lemma add_stock_request:
  "add_stock lims table_update_item d p (PInt q) w =
     (case table_update_item
             \<lparr>Key = [(''id'', PStr (d @ ''#'' @ p))],
              UpdateExpression = ''SET quantity = if_not_exists(quantity, :z) + :q'',
              ExpressionAttributeValues = [('':q'', PInt q), ('':z'', PInt 0)],
              ExpressionAttributeNames = None\<rparr> w of
        (Inr _, w') \<Rightarrow> ((Inr (), []), w')
      | (Inl e, w') \<Rightarrow>
          ((Inr (), [''Update error in DistributorInventory: '' @ exc_msg e]), w'))"
  by (simp add: add_stock_def update_item_def split: prod.splits sum.splits)

section \<open>Properties of the numeric conversions\<close>

text \<open>
  Equations for evaluating the conversions on a given number: the pairs are taken apart
  with \<open>fst\<close> and \<open>snd\<close>.
\<close>

lemma is_double_eval:
  "is_double m e =
     (0 < m \<and> round_double (dec_fraction (fst (exact_digits m e)) (snd (exact_digits m e))) = FFin m e)"
  by (simp add: is_double_def split: prod.splits)

lemma first_round_trip_eval:
  "first_round_trip v (p # cs) =
     (if round_double (dec_fraction (fst (strip_zeros (fst p) (snd p)))
                                    (snd (strip_zeros (fst p) (snd p)))) = v
      then Some (strip_zeros (fst p) (snd p)) else first_round_trip v cs)"
  by (cases p) (simp split: prod.splits)

lemma str_digits_eval:
  "str_digits m e =
     (if - 4 \<le> digit_length (fst (shortest_digits m e)) + snd (shortest_digits m e) - 1 \<and>
         digit_length (fst (shortest_digits m e)) + snd (shortest_digits m e) - 1 < 16 \<and>
         0 \<le> snd (shortest_digits m e)
      then (fst (shortest_digits m e) * 10 ^ nat (snd (shortest_digits m e) + 1), - 1)
      else shortest_digits m e)"
  by (simp add: str_digits_def Let_def split: prod.splits)

lemma decimal_of_float_eval:
  "decimal_of_float (FFin m e) =
     (if m = 0 then DFin 0 (- 1)
      else DFin (sgn m * fst (str_digits \<bar>m\<bar> e)) (snd (str_digits \<bar>m\<bar> e)))"
  by (simp add: decimal_of_float_def split: prod.splits)

lemma py_float_eval:
  "py_float (DFin c x) =
     Inr (if c = 0 then FFin 0 0
          else if 0 < c then round_double (dec_fraction c x)
          else (case round_double (dec_fraction (- c) x) of
                  FFin m e \<Rightarrow> FFin (- m) e
                | FInf s \<Rightarrow> FInf (\<not> s)
                | FNaN \<Rightarrow> FNaN))"
  by (simp add: py_float_def)

lemma mod_one_is_zero_eval:
  "mod_one_is_zero (DFin c x) =
     (if c \<noteq> 0 \<and> 28 < digit_length \<bar>c\<bar> + x
      then Inl (Exc InvalidOperation ''quotient too large in //, % or divmod'')
      else Inr (zero_fraction c x))"
  by (simp add: mod_one_is_zero_def)

lemmas float_eval =
  bit_length.simps digit_length.simps normal.simps strip_zeros.simps scale_def ilog2_def
  ilog10_def round_half_even_def round_double_def dec_fraction_def float_fraction_def
  candidates_def exact_digits_def shortest_digits_def str_digits_eval decimal_of_float_eval
  first_round_trip_eval is_double_eval mod_one_is_zero_eval zero_fraction_def py_float_eval
  trunc_def Let_def

text \<open>The numbers of the examples: 0.5, 4.0, \<^verbatim>\<open>1e23\<close> and \<^verbatim>\<open>1e28\<close>.\<close>

lemma double_examples:
  "is_double 1 (- 1)" "is_double 1 2" "is_double 2980232238769531 25"
  "is_double 4547473508864641 41"
  by (simp_all add: float_eval del: first_round_trip.simps(2))

lemma decimal_of_float_examples:
  "decimal_of_float (FFin 1 (- 1)) = DFin 5 (- 1)"
  "decimal_of_float (FFin 1 2) = DFin 40 (- 1)"
  "decimal_of_float (FFin 2980232238769531 25) = DFin 1 23"
  "decimal_of_float (FFin 4547473508864641 41) = DFin 1 28"
  by (simp_all add: float_eval del: first_round_trip.simps(2))

lemma py_float_example: "py_float (DFin 5 (- 1)) = Inr (FFin 1 (- 1))"
  by (simp add: float_eval del: first_round_trip.simps(2))

lemma first_round_trip_Some:
  "first_round_trip v cs = Some (c, x) \<Longrightarrow> round_double (dec_fraction c x) = v"
  by (induction v cs rule: first_round_trip.induct) (auto split: prod.splits if_splits)

lemma search_digits_Some:
  "search_digits f E v ks = Some (c, x) \<Longrightarrow> round_double (dec_fraction c x) = v"
  by (induction f E v ks rule: search_digits.induct)
     (auto split: option.splits dest: first_round_trip_Some)

lemma shortest_digits_round_trip:
  assumes "is_double m e" and "shortest_digits m e = (c, x)"
  shows "round_double (dec_fraction c x) = FFin m e"
proof (cases "search_digits (float_fraction m e) (ilog10 (float_fraction m e)) (FFin m e)
                [1, 2, 3, 4, 5, 6, 7, 8, 9, 10, 11, 12, 13, 14, 15, 16, 17]")
  case None
  then have "exact_digits m e = (c, x)" using assms(2) by (simp add: shortest_digits_def)
  then show ?thesis using assms(1) by (simp add: is_double_def)
next
  case (Some cx)
  then have "search_digits (float_fraction m e) (ilog10 (float_fraction m e)) (FFin m e)
                [1, 2, 3, 4, 5, 6, 7, 8, 9, 10, 11, 12, 13, 14, 15, 16, 17] = Some (c, x)"
    using assms(2) by (simp add: shortest_digits_def)
  then show ?thesis by (rule search_digits_Some)
qed

lemma normal_nonpos: "m \<le> 0 \<Longrightarrow> normal m e = (m', e') \<Longrightarrow> m' \<le> 0"
proof (induction m e rule: normal.induct)
  case (1 m e)
  show ?case
  proof (cases "m = 0 \<or> odd m")
    case True
    then show ?thesis using "1.prems" by (auto simp: normal.simps [of m e] split: if_splits)
  next
    case False
    then have "normal (m div 2) (e + 1) = (m', e')" using "1.prems"(2)
      by (simp add: normal.simps [of m e])
    moreover have "m div 2 \<le> 0" using "1.prems"(1) by simp
    ultimately show ?thesis using "1.IH" False by simp
  qed
qed

lemma round_half_even_nonpos:
  assumes "fst f \<le> 0" and "0 < snd f"
  shows "round_half_even f \<le> 0"
proof (cases "fst f div snd f = 0")
  case True
  have "fst f = snd f * (fst f div snd f) + fst f mod snd f" by simp
  then have "fst f = fst f mod snd f" using True by simp
  moreover have "0 \<le> fst f mod snd f" using assms(2) by simp
  ultimately have "fst f mod snd f = 0" using assms(1) by simp
  then show ?thesis using True assms(2) by (simp add: round_half_even_def Let_def)
next
  case False
  moreover have "fst f div snd f \<le> 0" using assms by (simp add: div_nonpos_pos_le0)
  ultimately have "fst f div snd f + 1 \<le> 0" by simp
  then show ?thesis by (simp add: round_half_even_def Let_def)
qed

lemma round_double_positive:
  assumes "round_double (dec_fraction c x) = FFin m e" and "0 < m"
  shows "0 < c"
proof (rule ccontr)
  assume "\<not> 0 < c"
  then have c: "c \<le> 0" by simp
  define f where "f = dec_fraction c x"
  have f: "fst f \<le> 0 \<and> 0 < snd f"
    using c by (auto simp: f_def dec_fraction_def scale_def mult_nonpos_nonneg)
  define k where "k = max (ilog2 f - 52) (- 1074)"
  have g: "fst (scale 2 f k) \<le> 0 \<and> 0 < snd (scale 2 f k)"
    using f by (auto simp: scale_def mult_nonpos_nonneg)
  then have r: "round_half_even (scale 2 f k) \<le> 0" by (simp add: round_half_even_nonpos)
  obtain m' e' where n: "normal (round_half_even (scale 2 f k)) k = (m', e')"
    by (cases "normal (round_half_even (scale 2 f k)) k")
  then have "m' \<le> 0" using r normal_nonpos by blast
  moreover have "round_double f = FFin m e" using assms(1) by (simp add: f_def)
  then have "m' = m"
    using n by (auto simp: round_double_def Let_def k_def split: if_splits)
  ultimately show False using assms(2) by simp
qed

lemma str_digits_fractional:
  assumes "str_digits m e = (c, x)" and "\<not> (0 \<le> x \<or> \<bar>c\<bar> mod 10 ^ nat (- x) = 0)"
  shows "shortest_digits m e = (c, x)"
proof (cases "shortest_digits m e")
  case (Pair c0 x0)
  show ?thesis
  proof (cases "- 4 \<le> digit_length c0 + x0 - 1 \<and> digit_length c0 + x0 - 1 < 16 \<and> 0 \<le> x0")
    case True
    then have "c = c0 * 10 ^ nat (x0 + 1) \<and> x = - 1"
      using assms(1) Pair by (auto simp: str_digits_def Let_def)
    moreover have "nat (x0 + 1) = Suc (nat x0)" using True by arith
    ultimately have "\<bar>c\<bar> mod 10 ^ nat (- x) = 0" by (simp add: abs_mult)
    then show ?thesis using assms(2) by simp
  next
    case False
    then show ?thesis using assms(1) Pair by (auto simp: str_digits_def Let_def)
  qed
qed

lemma float_round_trip:
  assumes "float_round_trips v" and "28 \<le> memory_digits lims"
  shows "\<exists>r. convert_deserialize lims (PDecimal (decimal_of_float v)) = Inr r \<and>
             same_value r (PFloat v)"
proof (cases v)
  case (FFin m e)
  show ?thesis
  proof (cases "m = 0")
    case True
    then have "e = 0" using assms(1) FFin by (simp add: float_round_trips_def)
    then show ?thesis using True FFin
      by (simp add: decimal_of_float_def mod_one_is_zero_def zero_fraction_def trunc_def)
  next
    case False
    obtain c0 x where sd: "str_digits \<bar>m\<bar> e = (c0, x)" by (cases "str_digits \<bar>m\<bar> e")
    have d: "decimal_of_float v = DFin (sgn m * c0) x"
      using FFin False sd by (simp add: decimal_of_float_def)
    have dbl: "is_double \<bar>m\<bar> e" and small: "digit_length \<bar>sgn m * c0\<bar> + x \<le> 28"
      and whole: "zero_fraction (sgn m * c0) x \<Longrightarrow>
                  0 \<le> e \<and> trunc 10 (sgn m * c0) x = m * 2 ^ nat e"
      using assms(1) FFin False d by (auto simp: float_round_trips_def split: if_splits)
    have abs_c: "\<bar>sgn m * c0\<bar> = \<bar>c0\<bar>" using False by (simp add: abs_mult)
    have mem: "\<not> (0 \<le> x \<and> memory_digits lims < x + digit_length \<bar>sgn m * c0\<bar>)"
      using small assms(2) by auto
    show ?thesis
    proof (cases "zero_fraction (sgn m * c0) x")
      case True
      then have "0 \<le> e \<and> trunc 10 (sgn m * c0) x = m * 2 ^ nat e" using whole by simp
      then show ?thesis using True d small FFin mem
        by (auto simp: mod_one_is_zero_def)
    next
      case nz: False
      then have frac: "\<not> (0 \<le> x \<or> \<bar>c0\<bar> mod 10 ^ nat (- x) = 0)"
        using abs_c by (auto simp: zero_fraction_def)
      then have "shortest_digits \<bar>m\<bar> e = (c0, x)" using sd str_digits_fractional by blast
      then have rt: "round_double (dec_fraction c0 x) = FFin \<bar>m\<bar> e"
        using dbl shortest_digits_round_trip by blast
      then have pos: "0 < c0" using False round_double_positive [of c0 x "\<bar>m\<bar>" e] by simp
      have "py_float (DFin (sgn m * c0) x) = Inr (FFin m e)"
      proof (cases "0 < m")
        case True
        then show ?thesis using rt pos by (simp add: py_float_def)
      next
        case neg: False
        then have "m < 0" using False by simp
        then show ?thesis using rt pos by (simp add: py_float_def)
      qed
      then show ?thesis using nz d small FFin
        by (auto simp: mod_one_is_zero_def)
    qed
  qed
next
  case (FInf s)
  then show ?thesis using assms(1) by (simp add: float_round_trips_def)
next
  case FNaN
  then show ?thesis using assms(1) by (simp add: float_round_trips_def)
qed

lemma convert_round_trip:
  assumes "28 \<le> memory_digits lims"
  shows "floats_round_trip v \<Longrightarrow>
      \<exists>r. convert_deserialize lims (convert_prepare v) = Inr r \<and> same_value r v"
    and "floats_round_trip_list vs \<Longrightarrow>
      \<exists>rs. convert_deserialize_list lims (convert_prepare_list vs) = Inr rs \<and> same_values rs vs"
    and "floats_round_trip_items kvs \<Longrightarrow>
      \<exists>rs. convert_deserialize_items lims (convert_prepare_items kvs) = Inr rs \<and>
            same_items rs kvs"
proof (induction v and vs and kvs
    rule: convert_prepare_convert_prepare_list_convert_prepare_items.induct)
  case (1 v)
  then show ?case using float_round_trip [OF _ assms, of v] by auto
qed auto

lemma convert_prepare_no_float:
  shows "\<not> has_float (convert_prepare v)"
    and "\<not> has_float_list (convert_prepare_list vs)"
    and "\<not> has_float_items (convert_prepare_items kvs)"
  by (induction v and vs and kvs
      rule: convert_prepare_convert_prepare_list_convert_prepare_items.induct) auto

text \<open>
  C1, as stated, fails. The float \<^verbatim>\<open>1e23\<close> is the double \<open>2980232238769531 * 2 ^ 25\<close>, that is
  99999999999999991611392. \<^verbatim>\<open>str\<close> writes it \<^verbatim>\<open>1e+23\<close>, so it is encoded as the decimal
  \<open>10 ^ 23\<close>, a whole number, and read back as the integer \<open>10 ^ 23\<close>, which is not the value
  written (in Python \<^verbatim>\<open>10**23 == 1e23\<close> is false).
\<close>

theorem round_trip_changes_1e23:
  "is_double 2980232238769531 25 \<and>
   deserialize_item default_limits
       (Some (prepare_for_dynamo [(''weight'', PFloat (FFin 2980232238769531 25))])) =
     Inr (Some [(''weight'', PInt 100000000000000000000000)]) \<and>
   \<not> same_value (PInt 100000000000000000000000) (PFloat (FFin 2980232238769531 25))"
  by (simp add: double_examples decimal_of_float_examples deserialize_item_def
      prepare_for_dynamo_def mod_one_is_zero_eval zero_fraction_def digit_length.simps trunc_def
      default_limits_def)

text \<open>
  C1 (amended): for a non-empty item that holds no decimals and whose floats all satisfy
  \<open>float_round_trips\<close>, on an interpreter that can build integers of 28 digits, the
  write-side conversion leaves no float anywhere in the item, and the read-side conversion
  of its result succeeds and gives an item equal to the original one: the same keys in
  the same order, each float with a fractional encoding as the same float, each float
  with a whole encoding as the integer of the same value.
\<close>

theorem prepare_then_deserialize_round_trip:
  assumes "item \<noteq> []" and "floats_round_trip_items item" and "28 \<le> memory_digits lims"
  shows "\<not> has_float_items (prepare_for_dynamo item) \<and>
         (\<exists>r. deserialize_item lims (Some (prepare_for_dynamo item)) = Inr (Some r) \<and>
              same_items r item)"
proof -
  obtain rs where rs: "convert_deserialize_items lims (convert_prepare_items item) = Inr rs"
    and same: "same_items rs item"
    using convert_round_trip(3) [OF assms(3) assms(2)] by blast
  have "convert_prepare_items item \<noteq> []" using assms(1) by (cases item) auto
  then show ?thesis using rs same convert_prepare_no_float(3) [of item]
    by (simp add: deserialize_item_def prepare_for_dynamo_def)
qed

theorem prepare_then_deserialize_round_trip_witness:
  "floats_round_trip_items
     [(''price'', PFloat (FFin 1 (- 1))), (''boxes'', PList [PFloat (FFin 1 2), PStr ''A1''])] \<and>
   prepare_for_dynamo
     [(''price'', PFloat (FFin 1 (- 1))), (''boxes'', PList [PFloat (FFin 1 2), PStr ''A1''])] =
     [(''price'', PDecimal (DFin 5 (- 1))),
      (''boxes'', PList [PDecimal (DFin 40 (- 1)), PStr ''A1''])] \<and>
   (\<exists>r. deserialize_item default_limits (Some (prepare_for_dynamo
            [(''price'', PFloat (FFin 1 (- 1))), (''boxes'', PList [PFloat (FFin 1 2), PStr ''A1''])])) =
          Inr (Some r) \<and>
        same_items r
          [(''price'', PFloat (FFin 1 (- 1))), (''boxes'', PList [PFloat (FFin 1 2), PStr ''A1''])])"
proof -
  have h: "floats_round_trip_items
     [(''price'', PFloat (FFin 1 (- 1))), (''boxes'', PList [PFloat (FFin 1 2), PStr ''A1''])]"
    by (simp add: float_round_trips_def double_examples decimal_of_float_examples
        digit_length.simps trunc_def zero_fraction_def)
  have p: "prepare_for_dynamo
     [(''price'', PFloat (FFin 1 (- 1))), (''boxes'', PList [PFloat (FFin 1 2), PStr ''A1''])] =
     [(''price'', PDecimal (DFin 5 (- 1))),
      (''boxes'', PList [PDecimal (DFin 40 (- 1)), PStr ''A1''])]"
    by (simp add: prepare_for_dynamo_def decimal_of_float_examples)
  have m: "28 \<le> memory_digits default_limits" by (simp add: default_limits_def)
  show ?thesis
    using h p prepare_then_deserialize_round_trip
      [of "[(''price'', PFloat (FFin 1 (- 1))), (''boxes'', PList [PFloat (FFin 1 2), PStr ''A1''])]"
          default_limits, OF _ h m]
    by simp
qed

text \<open>What the round trip of that item gives: 0.5 stays a float, 4.0 becomes the integer 4.\<close>

lemma round_trip_example:
  "deserialize_item default_limits (Some (prepare_for_dynamo
     [(''price'', PFloat (FFin 1 (- 1))), (''boxes'', PList [PFloat (FFin 1 2), PStr ''A1''])])) =
   Inr (Some [(''price'', PFloat (FFin 1 (- 1))), (''boxes'', PList [PInt 4, PStr ''A1''])])"
  by (simp add: deserialize_item_def prepare_for_dynamo_def decimal_of_float_examples
      py_float_example mod_one_is_zero_eval zero_fraction_def digit_length.simps trunc_def
      default_limits_def)

text \<open>
  The read-side converter on a finite decimal below \<open>10 ^ 28\<close> in magnitude: an integer when
  the fractional part is zero (or rounds to zero in the context), a float otherwise.
\<close>

lemma convert_deserialize_below_limit:
  assumes "digit_length \<bar>c\<bar> + x \<le> 28" and "28 \<le> memory_digits lims"
  shows "convert_deserialize lims (PDecimal (DFin c x)) =
           (if zero_fraction c x then Inr (PInt (trunc 10 c x))
            else (case py_float (DFin c x) of Inl err \<Rightarrow> Inl err | Inr v \<Rightarrow> Inr (PFloat v)))"
  using assms by (auto simp: mod_one_is_zero_def)

text \<open>
  C8: the read-side converter does not map every decimal with zero fractional part to an
  integer. \<^verbatim>\<open>value % 1\<close> is computed in the default context of 28 digits, and from
  \<open>10 ^ 28\<close> on it raises \<^verbatim>\<open>InvalidOperation\<close>. The whole decimal \<^verbatim>\<open>Decimal("1E+28")\<close> is not
  converted, and neither is the integer-valued float \<^verbatim>\<open>1e28\<close> (the double
  \<open>4547473508864641 * 2 ^ 41\<close>), which the write side encodes as that decimal.
\<close>

theorem deserialize_raises_from_1e28:
  "convert_deserialize default_limits (PDecimal (DFin 1 28)) =
     Inl (Exc InvalidOperation ''quotient too large in //, % or divmod'') \<and>
   is_double 4547473508864641 41 \<and>
   convert_prepare (PFloat (FFin 4547473508864641 41)) = PDecimal (DFin 1 28) \<and>
   convert_deserialize default_limits (convert_prepare (PFloat (FFin 4547473508864641 41))) =
     Inl (Exc InvalidOperation ''quotient too large in //, % or divmod'')"
  by (simp add: double_examples decimal_of_float_examples mod_one_is_zero_eval
      digit_length.simps)

end
